theory Spec2Isabelle
  imports Main "HOL-Library.Sublist"
begin

section \<open>The TODO application of \<^verbatim>\<open>src/todo_app.py\<close>\<close>

text \<open>
  The program keeps a list of tasks in one JSON file. Every public method of
  \<^verbatim>\<open>TodoApp\<close> reads the whole file, works on the decoded list and, when it
  changes something, writes the whole list back.

  Python is dynamically typed and \<^verbatim>\<open>Task(**item)\<close> checks nothing but the priority,
  so a field of a loaded task can hold any value that \<^verbatim>\<open>json.loads\<close> produces. The
  model therefore keeps the fields of a task as JSON values.

  Conventions of the model:
  \<^item> a \<open>char\<close> stands for one code point of a Python \<^verbatim>\<open>str\<close> (code points below 256),
    so \<open>length\<close> is Python's \<^verbatim>\<open>len\<close>;
  \<^item> \<^verbatim>\<open>Path.read_text\<close> and \<^verbatim>\<open>json.loads\<close> are library code, so the content of the
    storage file is given by what line 45, \<^verbatim>\<open>json.loads(self.storage.read_text())\<close>,
    does on it. There are three outcomes: it raises \<^verbatim>\<open>JSONDecodeError\<close> (\<open>Malformed\<close>,
    with the text of the file); it raises another exception (\<open>Raising\<close>, with the
    text and the exception: \<^verbatim>\<open>RecursionError\<close> on nesting deeper than the interpreter's
    recursion limit, \<^verbatim>\<open>UnicodeDecodeError\<close> on bytes that are no text in the expected
    encoding, \<^verbatim>\<open>ValueError\<close> on an integer literal of more than 4300 digits); or it
    returns a value (\<open>Wellformed\<close>, with the decoded value). \<^verbatim>\<open>json.dumps\<close> followed
    by \<^verbatim>\<open>json.loads\<close> is taken to give the value back, so what \<^verbatim>\<open>_save\<close> writes is
    represented by the value it serialises;
  \<^item> a Python \<^verbatim>\<open>float\<close> is carried by its \<^verbatim>\<open>repr\<close>; the program tests such a value
    for zero and compares it with 1, 2 or 3, and where it adds floats up the model
    records that the sum is a float and not which one;
  \<^item> a decoded JSON object is a Python \<^verbatim>\<open>dict\<close>: an association list in insertion
    order, each key once;
  \<^item> \<^verbatim>\<open>datetime.now().isoformat()\<close> is an input: \<open>clock i\<close> is its reading while the
    \<open>i\<close>-th entry of the file is turned into a task, \<open>now\<close> its reading in the body
    of \<^verbatim>\<open>add_task\<close> and \<^verbatim>\<open>complete_task\<close>;
  \<^item> a raised exception is the left injection of a sum, and every public method
    returns its outcome together with the content of the file afterwards.
\<close>

subsection \<open>Data\<close>

datatype json =
    JNull
  | JBool bool
  | JInt int
  | JFloat string
  | JStr string
  | JArr "json list"
  | JObj "(string \<times> json) list"

datatype error =
    ValueError string
  | TypeError
  | TaskNotFoundError string
  | RecursionError
  | UnicodeDecodeError
  | OverflowError

datatype content = Malformed string | Raising string error | Wellformed json

text \<open>The dataclass \<^verbatim>\<open>Task\<close>, lines 10 to 21.\<close>

record task =
  title :: json
  "done" :: json
  priority :: json
  created_at :: json
  completed_at :: json

subsection \<open>Python operators on decoded values\<close>

text \<open>Truth value of an object, as \<^verbatim>\<open>if task.done\<close> and \<^verbatim>\<open>not t.done\<close> take it.\<close>

fun truthy :: "json \<Rightarrow> bool" where
  "truthy JNull = False"
| "truthy (JBool b) = b"
| "truthy (JInt n) = (n \<noteq> 0)"
| "truthy (JFloat r) = (r \<noteq> ''0.0'' \<and> r \<noteq> ''-0.0'')"
| "truthy (JStr s) = (s \<noteq> [])"
| "truthy (JArr xs) = (xs \<noteq> [])"
| "truthy (JObj kvs) = (kvs \<noteq> [])"

text \<open>\<^verbatim>\<open>task.title == title\<close> for a \<^verbatim>\<open>str\<close> argument: only an equal string is equal.\<close>

fun py_eq_str :: "json \<Rightarrow> string \<Rightarrow> bool" where
  "py_eq_str (JStr s) x = (s = x)"
| "py_eq_str _ x = False"

text \<open>
  \<^verbatim>\<open>t.priority == priority\<close> for an \<^verbatim>\<open>int\<close> argument that has passed
  \<^verbatim>\<open>priority not in (1, 2, 3)\<close>: numbers compare by value, \<^verbatim>\<open>True\<close> is 1 and
  \<^verbatim>\<open>False\<close> is 0, everything else is unequal.
\<close>

fun py_eq_int :: "json \<Rightarrow> int \<Rightarrow> bool" where
  "py_eq_int (JInt n) p = (n = p)"
| "py_eq_int (JBool b) p = ((if b then 1 else 0) = p)"
| "py_eq_int (JFloat r) p =
     (p = 1 \<and> r = ''1.0'' \<or> p = 2 \<and> r = ''2.0'' \<or> p = 3 \<and> r = ''3.0'')"
| "py_eq_int _ p = False"

text \<open>\<^verbatim>\<open>str.isspace\<close> on the code points below 256, and \<^verbatim>\<open>str.strip()\<close>.\<close>

definition py_isspace :: "char \<Rightarrow> bool" where
  "py_isspace c =
     ((of_char c :: nat) \<in> {9, 10, 11, 12, 13, 28, 29, 30, 31, 32, 133, 160})"

definition strip :: "string \<Rightarrow> string" where
  "strip s = rev (dropWhile py_isspace (rev (dropWhile py_isspace s)))"

subsection \<open>Constructing a task\<close>

definition task_fields :: "string list" where
  "task_fields = [''title'', ''done'', ''priority'', ''created_at'', ''completed_at'']"

text \<open>
  The test of \<^verbatim>\<open>__post_init__\<close>, line 20, read positively:
  \<^verbatim>\<open>isinstance(priority, int) and priority in (1, 2, 3)\<close>. \<^verbatim>\<open>bool\<close> is a subclass of
  \<^verbatim>\<open>int\<close> and \<^verbatim>\<open>True == 1\<close>, so \<^verbatim>\<open>True\<close> passes; a float never does.
\<close>

fun priority_ok :: "json \<Rightarrow> bool" where
  "priority_ok (JInt n) = (n = 1 \<or> n = 2 \<or> n = 3)"
| "priority_ok (JBool b) = b"
| "priority_ok _ = False"

definition post_init :: "task \<Rightarrow> error + task" where
  "post_init t =
     (if \<not> priority_ok (priority t) then Inl (ValueError ''Priority must be 1, 2, or 3'')
      else Inr t)"

definition field_or :: "(string \<times> json) list \<Rightarrow> string \<Rightarrow> json \<Rightarrow> json" where
  "field_or kvs k d = (case map_of kvs k of None \<Rightarrow> d | Some v \<Rightarrow> v)"

text \<open>
  \<^verbatim>\<open>Task(**kwargs)\<close>: binding the keyword arguments raises \<^verbatim>\<open>TypeError\<close> on a keyword
  that is no field and on a missing \<^verbatim>\<open>title\<close>; the other fields have defaults
  (\<open>now\<close> is what the default factory of \<^verbatim>\<open>created_at\<close> returns); then
  \<^verbatim>\<open>__post_init__\<close> runs.
\<close>

definition mk_task :: "string \<Rightarrow> (string \<times> json) list \<Rightarrow> error + task" where
  "mk_task now kvs =
     (if \<not> list_all (\<lambda>k. k \<in> set task_fields) (map fst kvs) then Inl TypeError
      else case map_of kvs ''title'' of
        None \<Rightarrow> Inl TypeError
      | Some ti \<Rightarrow>
          post_init \<lparr>title = ti,
                     done = field_or kvs ''done'' (JBool False),
                     priority = field_or kvs ''priority'' (JInt 1),
                     created_at = field_or kvs ''created_at'' (JStr now),
                     completed_at = field_or kvs ''completed_at'' JNull\<rparr>)"

text \<open>\<^verbatim>\<open>Task(**item)\<close> for a decoded value: anything but a dict is no mapping.\<close>

fun task_of_item :: "string \<Rightarrow> json \<Rightarrow> error + task" where
  "task_of_item now (JObj kvs) = mk_task now kvs"
| "task_of_item now _ = Inl TypeError"

subsection \<open>Storage: \<^verbatim>\<open>_ensure_storage\<close>, \<^verbatim>\<open>_load\<close>, \<^verbatim>\<open>_save\<close>\<close>

text \<open>
  Lines 36 to 40; \<open>None\<close> is a file that does not exist, \<^verbatim>\<open>"[]"\<close> decodes to \<open>JArr []\<close>.
  The docstring says that the method ensures that the file "exists and contains valid
  JSON"; the code creates a missing file and leaves an existing one as it is, whatever
  it holds.
\<close>

fun ensure_storage :: "content option \<Rightarrow> content" where
  "ensure_storage None = Wellformed (JArr [])"
| "ensure_storage (Some c) = c"

text \<open>
  \<^verbatim>\<open>for item in data\<close>: a list yields its elements, a dict its keys, a string its
  characters; \<^verbatim>\<open>None\<close>, booleans and numbers are not iterable.
\<close>

fun iter_items :: "json \<Rightarrow> error + json list" where
  "iter_items (JArr xs) = Inr xs"
| "iter_items (JObj kvs) = Inr (map (\<lambda>kv. JStr (fst kv)) kvs)"
| "iter_items (JStr s) = Inr (map (\<lambda>c. JStr [c]) s)"
| "iter_items _ = Inl TypeError"

text \<open>The list comprehension of line 46: the first item that raises ends it.\<close>

fun load_items :: "(nat \<Rightarrow> string) \<Rightarrow> nat \<Rightarrow> json list \<Rightarrow> error + task list" where
  "load_items clock i [] = Inr []"
| "load_items clock i (x # xs) =
     (case task_of_item (clock i) x of
        Inl e \<Rightarrow> Inl e
      | Inr t \<Rightarrow>
          (case load_items clock (Suc i) xs of
             Inl e \<Rightarrow> Inl e
           | Inr ts \<Rightarrow> Inr (t # ts)))"

text \<open>
  \<^verbatim>\<open>_load\<close>, lines 42 to 48. Only \<^verbatim>\<open>JSONDecodeError\<close> is caught: any other exception
  of line 45 leaves the method, and so do the \<^verbatim>\<open>TypeError\<close> and \<^verbatim>\<open>ValueError\<close> of line
  46 (\<^verbatim>\<open>JSONDecodeError\<close> is a subclass of \<^verbatim>\<open>ValueError\<close>, not the other way round).
\<close>

fun load :: "(nat \<Rightarrow> string) \<Rightarrow> content \<Rightarrow> error + task list" where
  "load clock (Malformed raw) = Inr []"
| "load clock (Raising raw e) = Inl e"
| "load clock (Wellformed v) =
     (case iter_items v of
        Inl e \<Rightarrow> Inl e
      | Inr xs \<Rightarrow> load_items clock 0 xs)"

definition asdict :: "task \<Rightarrow> json" where
  "asdict t = JObj [(''title'', title t), (''done'', done t), (''priority'', priority t),
                    (''created_at'', created_at t), (''completed_at'', completed_at t)]"

definition save :: "task list \<Rightarrow> content" where
  "save tasks = Wellformed (JArr (map asdict tasks))"

subsection \<open>The public methods\<close>

definition not_found :: "string \<Rightarrow> error" where
  "not_found ti = TaskNotFoundError (''Task '' @ CHR 0x27 # ti @ CHR 0x27 # '' not found'')"

text \<open>
  \<^verbatim>\<open>add_task\<close>, lines 56 to 69. The arguments have their annotated types, a \<^verbatim>\<open>str\<close>
  and an \<^verbatim>\<open>int\<close>; \<^verbatim>\<open>Task(title=title, priority=priority)\<close> is the constructor called
  with these two keywords.
\<close>

definition add_task ::
  "(nat \<Rightarrow> string) \<Rightarrow> string \<Rightarrow> string \<Rightarrow> int \<Rightarrow> content \<Rightarrow> (error + task) \<times> content" where
  "add_task clock now ti p s =
     (if ti = [] then (Inl (ValueError ''Task title cannot be empty''), s)
      else if strip ti = [] then (Inl (ValueError ''Task title cannot be only whitespace''), s)
      else if length ti > 200 then
        (Inl (ValueError ''Task title cannot exceed 200 characters''), s)
      else case load clock s of
        Inl e \<Rightarrow> (Inl e, s)
      | Inr tasks \<Rightarrow>
          (case mk_task now [(''title'', JStr ti), (''priority'', JInt p)] of
             Inl e \<Rightarrow> (Inl e, s)
           | Inr t \<Rightarrow> (Inr t, save (tasks @ [t]))))"

text \<open>
  The loop of \<^verbatim>\<open>complete_task\<close>, lines 75 to 84. \<open>seen\<close> holds the tasks already
  passed; the result is the task returned and the list handed to \<^verbatim>\<open>_save\<close>, which
  holds the changed task in its old place.
\<close>

fun complete_loop :: "string \<Rightarrow> string \<Rightarrow> task list \<Rightarrow> task list \<Rightarrow> error + task \<times> task list" where
  "complete_loop now ti seen [] = Inl (not_found ti)"
| "complete_loop now ti seen (t # rest) =
     (if py_eq_str (title t) ti then
        (if truthy (done t) then Inl (ValueError ''Task is already completed'')
         else Inr (t\<lparr>done := JBool True, completed_at := JStr now\<rparr>,
                   seen @ t\<lparr>done := JBool True, completed_at := JStr now\<rparr> # rest))
      else complete_loop now ti (seen @ [t]) rest)"

definition complete_task ::
  "(nat \<Rightarrow> string) \<Rightarrow> string \<Rightarrow> string \<Rightarrow> content \<Rightarrow> (error + task) \<times> content" where
  "complete_task clock now ti s =
     (case load clock s of
        Inl e \<Rightarrow> (Inl e, s)
      | Inr tasks \<Rightarrow>
          (case complete_loop now ti [] tasks of
             Inl e \<Rightarrow> (Inl e, s)
           | Inr (t, tasks') \<Rightarrow> (Inr t, save tasks')))"

text \<open>The loop of \<^verbatim>\<open>delete_task\<close>, lines 90 to 96: \<^verbatim>\<open>tasks.pop(i)\<close> on the first match.\<close>

fun delete_loop :: "string \<Rightarrow> task list \<Rightarrow> task list \<Rightarrow> error + task \<times> task list" where
  "delete_loop ti seen [] = Inl (not_found ti)"
| "delete_loop ti seen (t # rest) =
     (if py_eq_str (title t) ti then Inr (t, seen @ rest)
      else delete_loop ti (seen @ [t]) rest)"

definition delete_task ::
  "(nat \<Rightarrow> string) \<Rightarrow> string \<Rightarrow> content \<Rightarrow> (error + task) \<times> content" where
  "delete_task clock ti s =
     (case load clock s of
        Inl e \<Rightarrow> (Inl e, s)
      | Inr tasks \<Rightarrow>
          (case delete_loop ti [] tasks of
             Inl e \<Rightarrow> (Inl e, s)
           | Inr (t, tasks') \<Rightarrow> (Inr t, save tasks')))"

text \<open>\<^verbatim>\<open>get_task\<close>, lines 98 to 106.\<close>

fun get_loop :: "string \<Rightarrow> task list \<Rightarrow> error + task" where
  "get_loop ti [] = Inl (not_found ti)"
| "get_loop ti (t # rest) = (if py_eq_str (title t) ti then Inr t else get_loop ti rest)"

definition get_task ::
  "(nat \<Rightarrow> string) \<Rightarrow> string \<Rightarrow> content \<Rightarrow> (error + task) \<times> content" where
  "get_task clock ti s =
     (case load clock s of
        Inl e \<Rightarrow> (Inl e, s)
      | Inr tasks \<Rightarrow> (get_loop ti tasks, s))"

text \<open>\<^verbatim>\<open>get_all_tasks\<close>, lines 108 to 110.\<close>

definition get_all_tasks :: "(nat \<Rightarrow> string) \<Rightarrow> content \<Rightarrow> (error + task list) \<times> content" where
  "get_all_tasks clock s = (load clock s, s)"

text \<open>
  \<^verbatim>\<open>active_tasks_count\<close>, lines 112 to 114: \<^verbatim>\<open>not t.done\<close> is a \<^verbatim>\<open>bool\<close>, and the
  sum of booleans counts the true ones.
\<close>

definition active_tasks_count :: "(nat \<Rightarrow> string) \<Rightarrow> content \<Rightarrow> (error + int) \<times> content" where
  "active_tasks_count clock s =
     (case load clock s of
        Inl e \<Rightarrow> (Inl e, s)
      | Inr tasks \<Rightarrow> (Inr (int (length (filter (\<lambda>t. \<not> truthy (done t)) tasks))), s))"

text \<open>
  \<^verbatim>\<open>completed_tasks_count\<close>, lines 116 to 118. The docstring says "Count completed
  tasks"; the code adds up the \<^verbatim>\<open>done\<close> values themselves with \<^verbatim>\<open>sum\<close>, starting from
  the integer 0. Python's \<^verbatim>\<open>+\<close> on what a field can hold:
  \<^item> a boolean adds 0 or 1 and an integer its value;
  \<^item> once a float takes part the sum is a float (\<open>PyFloat\<close>: its value is not tracked);
    an integer that is added to a float, or to which a float is added, is converted
    first, and the conversion raises \<^verbatim>\<open>OverflowError\<close> when the integer rounds to
    \<open>2 ^ 1024\<close> or beyond;
  \<^item> \<^verbatim>\<open>None\<close>, a string, a list and a dict raise \<^verbatim>\<open>TypeError\<close>.
\<close>

datatype pynum = PyInt int | PyFloat

definition float_overflows :: "int \<Rightarrow> bool" where
  "float_overflows n \<longleftrightarrow> \<bar>n\<bar> \<ge> 2 ^ 1024 - 2 ^ 970"

fun py_add :: "pynum \<Rightarrow> json \<Rightarrow> error + pynum" where
  "py_add (PyInt a) (JBool b) = Inr (PyInt (a + (if b then 1 else 0)))"
| "py_add (PyInt a) (JInt n) = Inr (PyInt (a + n))"
| "py_add (PyInt a) (JFloat r) = (if float_overflows a then Inl OverflowError else Inr PyFloat)"
| "py_add PyFloat (JBool b) = Inr PyFloat"
| "py_add PyFloat (JInt n) = (if float_overflows n then Inl OverflowError else Inr PyFloat)"
| "py_add PyFloat (JFloat r) = Inr PyFloat"
| "py_add acc v = Inl TypeError"

fun py_sum :: "pynum \<Rightarrow> json list \<Rightarrow> error + pynum" where
  "py_sum acc [] = Inr acc"
| "py_sum acc (v # vs) =
     (case py_add acc v of
        Inl e \<Rightarrow> Inl e
      | Inr acc' \<Rightarrow> py_sum acc' vs)"

definition completed_tasks_count ::
  "(nat \<Rightarrow> string) \<Rightarrow> content \<Rightarrow> (error + pynum) \<times> content" where
  "completed_tasks_count clock s =
     (case load clock s of
        Inl e \<Rightarrow> (Inl e, s)
      | Inr tasks \<Rightarrow> (py_sum (PyInt 0) (map done tasks), s))"

text \<open>\<^verbatim>\<open>get_tasks_by_priority\<close> and \<^verbatim>\<open>get_high_priority_tasks\<close>, lines 120 to 128.\<close>

definition get_tasks_by_priority ::
  "(nat \<Rightarrow> string) \<Rightarrow> int \<Rightarrow> content \<Rightarrow> (error + task list) \<times> content" where
  "get_tasks_by_priority clock p s =
     (if \<not> (p = 1 \<or> p = 2 \<or> p = 3) then (Inl (ValueError ''Priority must be 1, 2, or 3''), s)
      else case load clock s of
        Inl e \<Rightarrow> (Inl e, s)
      | Inr tasks \<Rightarrow> (Inr (filter (\<lambda>t. py_eq_int (priority t) p) tasks), s))"

definition get_high_priority_tasks ::
  "(nat \<Rightarrow> string) \<Rightarrow> content \<Rightarrow> (error + task list) \<times> content" where
  "get_high_priority_tasks clock s = get_tasks_by_priority clock 3 s"

subsection \<open>Runs of the application\<close>

text \<open>
  The contents of the file that a run of the mutating methods can produce, starting
  from the file that the constructor of \<^verbatim>\<open>TodoApp\<close> creates when none exists.
\<close>

inductive reachable :: "content \<Rightarrow> bool" where
  init: "reachable (ensure_storage None)"
| add: "reachable s \<Longrightarrow> reachable (snd (add_task clock now ti p s))"
| complete: "reachable s \<Longrightarrow> reachable (snd (complete_task clock now ti s))"
| delete: "reachable s \<Longrightarrow> reachable (snd (delete_task clock ti s))"

text \<open>
  What the data model asks of a stored task: the completion time is there exactly
  when the task is done, and the priority is 1, 2 or 3.
\<close>

definition task_inv :: "task \<Rightarrow> bool" where
  "task_inv t \<longleftrightarrow>
     ((completed_at t \<noteq> JNull) = (done t = JBool True)) \<and>
     (priority t = JInt 1 \<or> priority t = JInt 2 \<or> priority t = JInt 3)"

subsection \<open>Classifying decoded file contents\<close>

text \<open>
  An array entry from which \<^verbatim>\<open>Task(**item)\<close> builds a task: an object whose keys
  are all field names, with a \<^verbatim>\<open>title\<close>, and whose \<^verbatim>\<open>priority\<close>, when present, passes
  \<^verbatim>\<open>__post_init__\<close>.
\<close>

fun record_ok :: "json \<Rightarrow> bool" where
  "record_ok (JObj kvs) =
     (list_all (\<lambda>k. k \<in> set task_fields) (map fst kvs) \<and> map_of kvs ''title'' \<noteq> None \<and>
      priority_ok (field_or kvs ''priority'' (JInt 1)))"
| "record_ok _ = False"

text \<open>
  Decoded contents on which the list comprehension of \<^verbatim>\<open>_load\<close> raises: an array
  with an entry that is no such record, a dict or string that is not empty, and
  every value that cannot be iterated.
\<close>

fun bad_data :: "json \<Rightarrow> bool" where
  "bad_data (JArr xs) = (\<not> list_all record_ok xs)"
| "bad_data (JObj kvs) = (kvs \<noteq> [])"
| "bad_data (JStr s) = (s \<noteq> [])"
| "bad_data _ = True"

text \<open>
  The task that the constructor builds from the keywords \<open>kvs\<close> when it accepts them:
  each field is the keyword's value, or the default of the dataclass when the keyword
  is absent (\<open>title\<close> has no default; an accepted entry has one).
\<close>

definition with_defaults :: "string \<Rightarrow> (string \<times> json) list \<Rightarrow> task" where
  "with_defaults now kvs =
     \<lparr>title = field_or kvs ''title'' JNull,
      done = field_or kvs ''done'' (JBool False),
      priority = field_or kvs ''priority'' (JInt 1),
      created_at = field_or kvs ''created_at'' (JStr now),
      completed_at = field_or kvs ''completed_at'' JNull\<rparr>"

subsection \<open>Sample data\<close>

definition demo_clock :: "nat \<Rightarrow> string" where
  "demo_clock i = ''2026-01-05T09:00:00''"

definition milk :: task where
  "milk = \<lparr>title = JStr ''Buy milk'', done = JBool False, priority = JInt 2,
           created_at = JStr ''2026-01-02T08:00:00'', completed_at = JNull\<rparr>"

definition report :: task where
  "report = \<lparr>title = JStr ''Write report'', done = JBool True, priority = JInt 3,
             created_at = JStr ''2026-01-03T08:00:00'',
             completed_at = JStr ''2026-01-04T17:30:00''\<rparr>"

definition demo_store :: content where
  "demo_store = save [milk, report]"

text \<open>A file with one entry whose priority is 5, and one with an entry that has only a title.\<close>

definition bad_priority_store :: content where
  "bad_priority_store = Wellformed (JArr [JObj [(''title'', JStr ''x''), (''priority'', JInt 5)]])"

definition title_only_store :: content where
  "title_only_store = Wellformed (JArr [JObj [(''title'', JStr ''x'')]])"

text \<open>
  A file of 2000 opening brackets: \<^verbatim>\<open>json.loads\<close> recurses once per bracket and raises
  \<^verbatim>\<open>RecursionError\<close> before it reaches the end of the text.
\<close>

definition deep_store :: content where
  "deep_store = Raising (replicate 2000 CHR ''['') RecursionError"

section \<open>Properties\<close>

subsection \<open>Auxiliary facts\<close>

paragraph \<open>Comparison and stripping\<close>

lemma py_eq_str_iff: "py_eq_str v x \<longleftrightarrow> v = JStr x"
  by (cases v) auto

lemma strip_empty_iff: "strip s = [] \<longleftrightarrow> list_all py_isspace s"
proof -
  have "strip s = [] \<longleftrightarrow> (\<forall>c \<in> set (dropWhile py_isspace s). py_isspace c)"
    by (simp add: strip_def dropWhile_eq_Nil_conv)
  also have "\<dots> \<longleftrightarrow> dropWhile py_isspace s = []"
  proof
    assume a: "\<forall>c \<in> set (dropWhile py_isspace s). py_isspace c"
    show "dropWhile py_isspace s = []"
    proof (rule ccontr)
      assume ne: "dropWhile py_isspace s \<noteq> []"
      then have "\<not> py_isspace (hd (dropWhile py_isspace s))" by (rule hd_dropWhile)
      moreover from ne have "hd (dropWhile py_isspace s) \<in> set (dropWhile py_isspace s)" by simp
      ultimately show False using a by blast
    qed
  next
    assume d: "dropWhile py_isspace s = []"
    show "\<forall>c \<in> set (dropWhile py_isspace s). py_isspace c" unfolding d by simp
  qed
  also have "\<dots> \<longleftrightarrow> list_all py_isspace s"
    by (simp add: dropWhile_eq_Nil_conv list_all_iff)
  finally show ?thesis .
qed

paragraph \<open>Loading what was saved\<close>

lemma task_of_item_asdict:
  "priority_ok (priority t) \<Longrightarrow> task_of_item now (asdict t) = Inr t"
  by (simp add: asdict_def mk_task_def task_fields_def field_or_def post_init_def)

lemma load_items_asdict:
  "list_all (\<lambda>t. priority_ok (priority t)) ts \<Longrightarrow> load_items clock i (map asdict ts) = Inr ts"
  by (induction ts arbitrary: i) (simp_all add: task_of_item_asdict)

lemma load_save:
  "list_all (\<lambda>t. priority_ok (priority t)) ts \<Longrightarrow> load clock (save ts) = Inr ts"
  by (simp add: save_def load_items_asdict)

paragraph \<open>Every loaded task has passed the priority check\<close>

lemma mk_task_priority_ok: "mk_task now kvs = Inr t \<Longrightarrow> priority_ok (priority t)"
  by (auto simp: mk_task_def post_init_def split: if_splits option.splits)

lemma task_of_item_priority_ok: "task_of_item now x = Inr t \<Longrightarrow> priority_ok (priority t)"
  by (cases x) (auto dest: mk_task_priority_ok)

lemma load_items_priority_ok:
  "load_items clock i xs = Inr ts \<Longrightarrow> list_all (\<lambda>t. priority_ok (priority t)) ts"
proof (induction xs arbitrary: i ts)
  case Nil
  then show ?case by simp
next
  case (Cons x xs)
  from Cons.prems obtain t ts' where
    t: "task_of_item (clock i) x = Inr t" and
    r: "load_items clock (Suc i) xs = Inr ts'" and
    e: "ts = t # ts'"
    by (auto split: sum.splits)
  from t have "priority_ok (priority t)" by (rule task_of_item_priority_ok)
  moreover from r have "list_all (\<lambda>t. priority_ok (priority t)) ts'" by (rule Cons.IH)
  ultimately show ?case using e by simp
qed

lemma load_priority_ok:
  "load clock s = Inr ts \<Longrightarrow> list_all (\<lambda>t. priority_ok (priority t)) ts"
proof (cases s)
  case (Malformed raw)
  assume "load clock s = Inr ts"
  with Malformed show ?thesis by simp
next
  case (Raising raw e)
  assume "load clock s = Inr ts"
  with Raising show ?thesis by simp
next
  case (Wellformed v)
  assume "load clock s = Inr ts"
  with Wellformed show ?thesis
    by (auto split: sum.splits dest: load_items_priority_ok)
qed

paragraph \<open>The three scans, by the first task with the title\<close>

lemma get_loop_none:
  "\<forall>t \<in> set ts. title t \<noteq> JStr ti \<Longrightarrow> get_loop ti ts = Inl (not_found ti)"
  by (induction ts) (simp_all add: py_eq_str_iff)

lemma get_loop_first:
  "\<forall>u \<in> set pre. title u \<noteq> JStr ti \<Longrightarrow> title t = JStr ti \<Longrightarrow>
   get_loop ti (pre @ t # post) = Inr t"
  by (induction pre) (simp_all add: py_eq_str_iff)

lemma complete_loop_none:
  "\<forall>t \<in> set ts. title t \<noteq> JStr ti \<Longrightarrow> complete_loop now ti seen ts = Inl (not_found ti)"
  by (induction ts arbitrary: seen) (simp_all add: py_eq_str_iff)

lemma complete_loop_first:
  "\<forall>u \<in> set pre. title u \<noteq> JStr ti \<Longrightarrow> title t = JStr ti \<Longrightarrow>
   complete_loop now ti seen (pre @ t # post) =
     (if truthy (done t) then Inl (ValueError ''Task is already completed'')
      else Inr (t\<lparr>done := JBool True, completed_at := JStr now\<rparr>,
                seen @ pre @ t\<lparr>done := JBool True, completed_at := JStr now\<rparr> # post))"
  by (induction pre arbitrary: seen) (simp_all add: py_eq_str_iff)

lemma delete_loop_none:
  "\<forall>t \<in> set ts. title t \<noteq> JStr ti \<Longrightarrow> delete_loop ti seen ts = Inl (not_found ti)"
  by (induction ts arbitrary: seen) (simp_all add: py_eq_str_iff)

lemma delete_loop_first:
  "\<forall>u \<in> set pre. title u \<noteq> JStr ti \<Longrightarrow> title t = JStr ti \<Longrightarrow>
   delete_loop ti seen (pre @ t # post) = Inr (t, seen @ pre @ post)"
  by (induction pre arbitrary: seen) (simp_all add: py_eq_str_iff)

paragraph \<open>The sample file\<close>

lemma demo_store_load: "load demo_clock demo_store = Inr [milk, report]"
  unfolding demo_store_def by (rule load_save) (simp add: milk_def report_def)

paragraph \<open>No write before a raise\<close>

lemma add_task_error_keeps: "isl (fst (add_task clock now ti p s)) \<Longrightarrow> snd (add_task clock now ti p s) = s"
  by (auto simp: add_task_def split: if_splits sum.splits)

lemma complete_task_error_keeps:
  "isl (fst (complete_task clock now ti s)) \<Longrightarrow> snd (complete_task clock now ti s) = s"
  by (auto simp: complete_task_def split: sum.splits prod.splits)

lemma delete_task_error_keeps:
  "isl (fst (delete_task clock ti s)) \<Longrightarrow> snd (delete_task clock ti s) = s"
  by (auto simp: delete_task_def split: sum.splits prod.splits)

lemma get_task_keeps: "snd (get_task clock ti s) = s"
  by (auto simp: get_task_def split: sum.splits)

paragraph \<open>Failing calls on the sample file\<close>

lemma demo_add_empty:
  "add_task demo_clock ''2026-01-05T10:00:00'' [] 1 demo_store =
     (Inl (ValueError ''Task title cannot be empty''), demo_store)"
  by (simp add: add_task_def)

lemma demo_complete_missing:
  "complete_task demo_clock ''2026-01-05T10:00:00'' [] demo_store = (Inl (not_found []), demo_store)"
  by (simp add: complete_task_def demo_store_load milk_def report_def)

lemma demo_delete_missing:
  "delete_task demo_clock [] demo_store = (Inl (not_found []), demo_store)"
  by (simp add: delete_task_def demo_store_load milk_def report_def)

lemma demo_get_missing:
  "get_task demo_clock [] demo_store = (Inl (not_found []), demo_store)"
  by (simp add: get_task_def demo_store_load milk_def report_def)

paragraph \<open>Each mutating method keeps the invariant\<close>

lemma task_inv_priority_ok: "list_all task_inv ts \<Longrightarrow> list_all (\<lambda>t. priority_ok (priority t)) ts"
  by (induction ts) (auto simp: task_inv_def)

lemma complete_loop_inv:
  "complete_loop now ti seen ts = Inr (t, ts') \<Longrightarrow> list_all task_inv seen \<Longrightarrow>
   list_all task_inv ts \<Longrightarrow> list_all task_inv ts'"
  by (induction ts arbitrary: seen) (auto simp: task_inv_def split: if_splits)

lemma delete_loop_inv:
  "delete_loop ti seen ts = Inr (t, ts') \<Longrightarrow> list_all task_inv seen \<Longrightarrow>
   list_all task_inv ts \<Longrightarrow> list_all task_inv ts'"
  by (induction ts arbitrary: seen) (auto split: if_splits)

lemma mk_task_new_inv:
  "mk_task now [(''title'', JStr ti), (''priority'', JInt p)] = Inr t \<Longrightarrow> task_inv t"
  by (auto simp: mk_task_def task_fields_def field_or_def post_init_def task_inv_def
      split: if_splits)

lemma add_task_inv:
  assumes "list_all task_inv ts"
  shows "\<exists>ts'. snd (add_task clock now ti p (save ts)) = save ts' \<and> list_all task_inv ts'"
proof -
  have ld: "load clock (save ts) = Inr ts"
    using assms by (intro load_save task_inv_priority_ok)
  show ?thesis
  proof (cases "fst (add_task clock now ti p (save ts))")
    case (Inl e)
    then have "snd (add_task clock now ti p (save ts)) = save ts"
      by (intro add_task_error_keeps) simp
    with assms show ?thesis by blast
  next
    case (Inr t)
    then have "mk_task now [(''title'', JStr ti), (''priority'', JInt p)] = Inr t \<and>
        snd (add_task clock now ti p (save ts)) = save (ts @ [t])"
      using ld by (auto simp: add_task_def split: if_splits sum.splits)
    then show ?thesis using assms mk_task_new_inv by fastforce
  qed
qed

lemma complete_task_inv:
  assumes "list_all task_inv ts"
  shows "\<exists>ts'. snd (complete_task clock now ti (save ts)) = save ts' \<and> list_all task_inv ts'"
proof -
  have ld: "load clock (save ts) = Inr ts"
    using assms by (intro load_save task_inv_priority_ok)
  show ?thesis
  proof (cases "complete_loop now ti [] ts")
    case (Inl e)
    with ld have "snd (complete_task clock now ti (save ts)) = save ts"
      by (simp add: complete_task_def)
    with assms show ?thesis by blast
  next
    case (Inr r)
    obtain t ts' where r: "r = (t, ts')" by (cases r)
    with Inr ld have "snd (complete_task clock now ti (save ts)) = save ts'"
      by (simp add: complete_task_def)
    moreover have "list_all task_inv ts'"
      using complete_loop_inv [of now ti "[]" ts t ts'] Inr r assms by simp
    ultimately show ?thesis by blast
  qed
qed

lemma delete_task_inv:
  assumes "list_all task_inv ts"
  shows "\<exists>ts'. snd (delete_task clock ti (save ts)) = save ts' \<and> list_all task_inv ts'"
proof -
  have ld: "load clock (save ts) = Inr ts"
    using assms by (intro load_save task_inv_priority_ok)
  show ?thesis
  proof (cases "delete_loop ti [] ts")
    case (Inl e)
    with ld have "snd (delete_task clock ti (save ts)) = save ts"
      by (simp add: delete_task_def)
    with assms show ?thesis by blast
  next
    case (Inr r)
    obtain t ts' where r: "r = (t, ts')" by (cases r)
    with Inr ld have "snd (delete_task clock ti (save ts)) = save ts'"
      by (simp add: delete_task_def)
    moreover have "list_all task_inv ts'"
      using delete_loop_inv [of ti "[]" ts t ts'] Inr r assms by simp
    ultimately show ?thesis by blast
  qed
qed

lemma reachable_saved: "reachable s \<Longrightarrow> \<exists>ts. s = save ts \<and> list_all task_inv ts"
proof (induction rule: reachable.induct)
  case init
  have "ensure_storage None = save [] \<and> list_all task_inv []" by (simp add: save_def)
  then show ?case by blast
next
  case (add s clock now ti p)
  then show ?case using add_task_inv by blast
next
  case (complete s clock now ti)
  then show ?case using complete_task_inv by blast
next
  case (delete s clock ti)
  then show ?case using delete_task_inv by blast
qed

paragraph \<open>A run from the empty file\<close>

lemma not_space_a: "\<not> py_isspace CHR ''a''"
  by (simp add: py_isspace_def)

lemma strip_milk: "strip ''Buy milk'' \<noteq> []"
  by (simp add: strip_empty_iff py_isspace_def)

lemma empty_add_milk:
  "add_task demo_clock ''2026-01-02T08:00:00'' ''Buy milk'' 2 (ensure_storage None) =
     (Inr milk, save [milk])"
  using strip_milk
  by (simp add: add_task_def mk_task_def task_fields_def field_or_def post_init_def milk_def)

lemma load_milk: "load clock (save [milk]) = Inr [milk]"
  by (rule load_save) (simp add: milk_def)

lemma milk_complete:
  "complete_task demo_clock ''2026-01-05T10:00:00'' ''Buy milk'' (save [milk]) =
     (Inr (milk\<lparr>done := JBool True, completed_at := JStr ''2026-01-05T10:00:00''\<rparr>),
      save [milk\<lparr>done := JBool True, completed_at := JStr ''2026-01-05T10:00:00''\<rparr>])"
  by (simp add: complete_task_def load_milk) (simp add: milk_def)

lemma reachable_milk_done:
  "reachable (save [milk\<lparr>done := JBool True, completed_at := JStr ''2026-01-05T10:00:00''\<rparr>])"
proof -
  have "reachable (snd (add_task demo_clock ''2026-01-02T08:00:00'' ''Buy milk'' 2
      (ensure_storage None)))"
    by (intro reachable.add reachable.init)
  then have "reachable (save [milk])" unfolding empty_add_milk by simp
  then have "reachable (snd (complete_task demo_clock ''2026-01-05T10:00:00'' ''Buy milk''
      (save [milk])))"
    by (rule reachable.complete)
  then show ?thesis unfolding milk_complete by simp
qed

paragraph \<open>Priorities of loaded tasks\<close>

lemma loaded_priority_eq:
  "priority_ok v \<Longrightarrow> (p = 1 \<or> p = 2 \<or> p = 3) \<Longrightarrow>
   py_eq_int v p \<longleftrightarrow> v = JInt p \<or> (p = 1 \<and> v = JBool True)"
  by (cases v) auto

paragraph \<open>The task that \<^verbatim>\<open>add_task\<close> constructs\<close>

lemma mk_task_new:
  "p = 1 \<or> p = 2 \<or> p = 3 \<Longrightarrow>
   mk_task now [(''title'', JStr ti), (''priority'', JInt p)] =
     Inr \<lparr>title = JStr ti, done = JBool False, priority = JInt p,
          created_at = JStr now, completed_at = JNull\<rparr>"
  by (auto simp: mk_task_def task_fields_def field_or_def post_init_def)

lemma mk_task_new_bad:
  "\<not> (p = 1 \<or> p = 2 \<or> p = 3) \<Longrightarrow>
   mk_task now [(''title'', JStr ti), (''priority'', JInt p)] =
     Inl (ValueError ''Priority must be 1, 2, or 3'')"
  by (auto simp: mk_task_def task_fields_def field_or_def post_init_def)

lemma add_task_ok:
  assumes "ti \<noteq> []" and "\<not> list_all py_isspace ti" and "length ti \<le> 200"
    and "p = 1 \<or> p = 2 \<or> p = 3" and "load clock s = Inr tasks"
  shows "add_task clock now ti p s =
     (Inr \<lparr>title = JStr ti, done = JBool False, priority = JInt p,
           created_at = JStr now, completed_at = JNull\<rparr>,
      save (tasks @ [\<lparr>title = JStr ti, done = JBool False, priority = JInt p,
                      created_at = JStr now, completed_at = JNull\<rparr>]))"
  using assms by (simp add: add_task_def strip_empty_iff mk_task_new)

paragraph \<open>Files for the failing cases\<close>

lemma load_report: "load clock (save [report]) = Inr [report]"
  by (rule load_save) (simp add: report_def)

lemma strip_report: "strip ''Write report'' \<noteq> []"
  by (simp add: strip_empty_iff py_isspace_def)

lemma bad_priority_load:
  "load clock bad_priority_store = Inl (ValueError ''Priority must be 1, 2, or 3'')"
  by (simp add: bad_priority_store_def mk_task_def task_fields_def field_or_def post_init_def)

paragraph \<open>Title checks come before the load\<close>

lemma add_task_title_errors:
  "ti = [] \<or> list_all py_isspace ti \<or> length ti > 200 \<Longrightarrow>
   \<exists>msg. add_task clock now ti p s = (Inl (ValueError msg), s)"
  by (auto simp: add_task_def strip_empty_iff)

lemma replicate_not_space: "0 < n \<Longrightarrow> \<not> list_all py_isspace (replicate n CHR ''a'')"
  by (simp add: list_all_iff py_isspace_def)

paragraph \<open>When and how loading raises\<close>

lemma mk_task_error_kind:
  "mk_task now kvs = Inl e \<Longrightarrow> e = TypeError \<or> e = ValueError ''Priority must be 1, 2, or 3''"
  by (auto simp: mk_task_def post_init_def split: if_splits option.splits)

lemma task_of_item_error_kind:
  "task_of_item now x = Inl e \<Longrightarrow> e = TypeError \<or> e = ValueError ''Priority must be 1, 2, or 3''"
  by (cases x) (auto dest: mk_task_error_kind)

lemma mk_task_fails_iff:
  "(\<exists>e. mk_task now kvs = Inl e) \<longleftrightarrow> \<not> record_ok (JObj kvs)"
  by (auto simp: mk_task_def post_init_def split: if_splits option.splits)

lemma task_of_item_fails_iff: "(\<exists>e. task_of_item now x = Inl e) \<longleftrightarrow> \<not> record_ok x"
  by (cases x) (simp_all add: mk_task_fails_iff del: record_ok.simps(1))

lemma load_items_error_kind:
  "load_items clock i xs = Inl e \<Longrightarrow>
   e = TypeError \<or> e = ValueError ''Priority must be 1, 2, or 3''"
  by (induction xs arbitrary: i) (auto split: sum.splits dest: task_of_item_error_kind)

lemma load_items_fails_iff:
  "(\<exists>e. load_items clock i xs = Inl e) \<longleftrightarrow> \<not> list_all record_ok xs"
proof (induction xs arbitrary: i)
  case Nil
  show ?case by simp
next
  case (Cons x xs)
  show ?case
  proof (cases "task_of_item (clock i) x")
    case (Inl e)
    then have "\<not> record_ok x" using task_of_item_fails_iff by blast
    with Inl show ?thesis by simp
  next
    case (Inr t)
    then have "record_ok x" using task_of_item_fails_iff [of "clock i" x] by auto
    with Inr Cons.IH [of "Suc i"] show ?thesis by (auto split: sum.splits)
  qed
qed

lemma keys_not_records: "list_all record_ok (map (\<lambda>kv. JStr (fst kv)) kvs) \<longleftrightarrow> kvs = []"
  by (cases kvs) simp_all

lemma chars_not_records: "list_all record_ok (map (\<lambda>c. JStr [c]) s) \<longleftrightarrow> s = []"
  by (cases s) simp_all

lemma load_fails_iff: "(\<exists>e. load clock (Wellformed v) = Inl e) \<longleftrightarrow> bad_data v"
  by (cases v) (simp_all add: load_items_fails_iff keys_not_records chars_not_records)

lemma load_error_kind:
  "load clock (Wellformed v) = Inl e \<Longrightarrow>
   e = TypeError \<or> e = ValueError ''Priority must be 1, 2, or 3''"
  by (cases v) (auto dest: load_items_error_kind)

paragraph \<open>An error of \<^verbatim>\<open>_load\<close> leaves every method that calls it\<close>

lemma load_error_propagates:
  assumes "load clock s = Inl e"
  shows "get_all_tasks clock s = (Inl e, s) \<and>
         get_task clock ti s = (Inl e, s) \<and>
         complete_task clock now ti s = (Inl e, s) \<and>
         delete_task clock ti s = (Inl e, s) \<and>
         active_tasks_count clock s = (Inl e, s) \<and>
         completed_tasks_count clock s = (Inl e, s) \<and>
         (ti \<noteq> [] \<and> \<not> list_all py_isspace ti \<and> length ti \<le> 200 \<longrightarrow>
            add_task clock now ti p s = (Inl e, s)) \<and>
         ((p = 1 \<or> p = 2 \<or> p = 3) \<longrightarrow> get_tasks_by_priority clock p s = (Inl e, s))"
  using assms
  by (simp add: get_all_tasks_def get_task_def complete_task_def delete_task_def
      active_tasks_count_def completed_tasks_count_def add_task_def strip_empty_iff
      get_tasks_by_priority_def)

paragraph \<open>Accepted entries are loaded with the defaults\<close>

lemma mk_task_with_defaults:
  "record_ok (JObj kvs) \<Longrightarrow> mk_task now kvs = Inr (with_defaults now kvs)"
  by (auto simp: mk_task_def post_init_def with_defaults_def field_or_def split: option.splits)

lemma load_items_with_defaults:
  "list_all (\<lambda>kvs. record_ok (JObj kvs)) kvss \<Longrightarrow>
   load_items clock i (map JObj kvss) =
     Inr (map (\<lambda>(j, kvs). with_defaults (clock j) kvs) (enumerate i kvss))"
  by (induction kvss arbitrary: i) (simp_all add: mk_task_with_defaults del: record_ok.simps)

lemma title_only_is_ok: "list_all (\<lambda>kvs. record_ok (JObj kvs)) [[(''title'', JStr ''x'')]]"
  by (simp add: task_fields_def field_or_def)

lemma bad_priority_is_bad:
  "bad_data (JArr [JObj [(''title'', JStr ''x''), (''priority'', JInt 5)]])"
  by (simp add: task_fields_def field_or_def)

subsection \<open>Round trip through the file\<close>

text \<open>
  C8. For every collection of tasks whose priorities pass the check of the
  constructor (so for every collection of valid tasks), loading what \<^verbatim>\<open>_save\<close> has
  written gives back the same list, with the same value in every field of every task.
\<close>

theorem load_after_save:
  "list_all (\<lambda>t. priority_ok (priority t)) tasks \<Longrightarrow> load clock (save tasks) = Inr tasks"
  by (rule load_save)

theorem load_after_save_witness:
  "list_all (\<lambda>t. priority_ok (priority t)) [milk, report] \<and>
   load demo_clock (save [milk, report]) = Inr [milk, report]"
proof -
  have h: "list_all (\<lambda>t. priority_ok (priority t)) [milk, report]"
    by (simp add: milk_def report_def)
  from h load_after_save [OF h, of demo_clock] show ?thesis by simp
qed

subsection \<open>Completing a task\<close>

text \<open>
  C2. Let the file load as \<open>tasks\<close>. If no task has exactly the title asked for,
  \<^verbatim>\<open>complete_task\<close> raises the not-found error and the file is as before. Otherwise
  let \<open>t\<close> be the first task with that title (nothing in \<open>pre\<close> has it). If \<open>t\<close> is
  already done, the call raises \<^verbatim>\<open>ValueError("Task is already completed")\<close> and the
  file is as before. If not, the call returns \<open>t\<close> with \<open>done\<close> set to \<^verbatim>\<open>True\<close> and
  \<open>completed_at\<close> set to the current time (so not \<^verbatim>\<open>None\<close>), and the file holds the
  same list with that task changed in place; that file loads again, and a second
  \<^verbatim>\<open>complete_task\<close> with the same title raises the already-completed error and
  leaves the file alone.
\<close>

theorem complete_task_first_match:
  assumes ld: "load clock s = Inr tasks"
  shows "((\<forall>t \<in> set tasks. title t \<noteq> JStr ti) \<longrightarrow>
            complete_task clock now ti s = (Inl (not_found ti), s)) \<and>
         (\<forall>pre t post.
            tasks = pre @ t # post \<and> (\<forall>u \<in> set pre. title u \<noteq> JStr ti) \<and> title t = JStr ti \<longrightarrow>
            (if truthy (done t) then
               complete_task clock now ti s = (Inl (ValueError ''Task is already completed''), s)
             else
               complete_task clock now ti s =
                 (Inr (t\<lparr>done := JBool True, completed_at := JStr now\<rparr>),
                  save (pre @ t\<lparr>done := JBool True, completed_at := JStr now\<rparr> # post)) \<and>
               completed_at (t\<lparr>done := JBool True, completed_at := JStr now\<rparr>) \<noteq> JNull \<and>
               load clock2 (save (pre @ t\<lparr>done := JBool True, completed_at := JStr now\<rparr> # post)) =
                 Inr (pre @ t\<lparr>done := JBool True, completed_at := JStr now\<rparr> # post) \<and>
               complete_task clock2 now2 ti
                   (save (pre @ t\<lparr>done := JBool True, completed_at := JStr now\<rparr> # post)) =
                 (Inl (ValueError ''Task is already completed''),
                  save (pre @ t\<lparr>done := JBool True, completed_at := JStr now\<rparr> # post))))"
proof (intro conjI impI allI)
  assume "\<forall>t \<in> set tasks. title t \<noteq> JStr ti"
  then have "complete_loop now ti [] tasks = Inl (not_found ti)"
    by (rule complete_loop_none)
  with ld show "complete_task clock now ti s = (Inl (not_found ti), s)"
    by (simp add: complete_task_def)
next
  fix pre t post
  assume a: "tasks = pre @ t # post \<and> (\<forall>u \<in> set pre. title u \<noteq> JStr ti) \<and> title t = JStr ti"
  then have eq: "tasks = pre @ t # post"
    and pre: "\<forall>u \<in> set pre. title u \<noteq> JStr ti"
    and hit: "title t = JStr ti"
    by simp_all
  let ?t = "t\<lparr>done := JBool True, completed_at := JStr now\<rparr>"
  let ?ts = "pre @ ?t # post"
  have loop: "complete_loop now ti [] tasks =
      (if truthy (done t) then Inl (ValueError ''Task is already completed'')
       else Inr (?t, ?ts))"
    using complete_loop_first [OF pre hit, of now "[]" post] eq by simp
  show "if truthy (done t) then
          complete_task clock now ti s = (Inl (ValueError ''Task is already completed''), s)
        else
          complete_task clock now ti s = (Inr ?t, save ?ts) \<and>
          completed_at ?t \<noteq> JNull \<and>
          load clock2 (save ?ts) = Inr ?ts \<and>
          complete_task clock2 now2 ti (save ?ts) =
            (Inl (ValueError ''Task is already completed''), save ?ts)"
  proof (cases "truthy (done t)")
    case True
    with ld loop show ?thesis by (simp add: complete_task_def)
  next
    case False
    have call1: "complete_task clock now ti s = (Inr ?t, save ?ts)"
      using ld loop False by (simp add: complete_task_def)
    from ld have "list_all (\<lambda>t. priority_ok (priority t)) tasks"
      by (rule load_priority_ok)
    with eq have "list_all (\<lambda>t. priority_ok (priority t)) ?ts" by simp
    then have reload: "load clock2 (save ?ts) = Inr ?ts" by (rule load_save)
    have hit': "title ?t = JStr ti" using hit by simp
    have "complete_loop now2 ti [] ?ts = Inl (ValueError ''Task is already completed'')"
      using complete_loop_first [OF pre hit', of now2 "[]" post] by simp
    with reload have call2: "complete_task clock2 now2 ti (save ?ts) =
        (Inl (ValueError ''Task is already completed''), save ?ts)"
      by (simp add: complete_task_def)
    from False call1 reload call2 show ?thesis by simp
  qed
qed

theorem complete_task_first_match_witness:
  "load demo_clock demo_store = Inr [milk, report] \<and>
   complete_task demo_clock ''2026-01-05T10:00:00'' ''Walk dog'' demo_store =
     (Inl (not_found ''Walk dog''), demo_store) \<and>
   complete_task demo_clock ''2026-01-05T10:00:00'' ''Write report'' demo_store =
     (Inl (ValueError ''Task is already completed''), demo_store) \<and>
   complete_task demo_clock ''2026-01-05T10:00:00'' ''Buy milk'' demo_store =
     (Inr (milk\<lparr>done := JBool True, completed_at := JStr ''2026-01-05T10:00:00''\<rparr>),
      save [milk\<lparr>done := JBool True, completed_at := JStr ''2026-01-05T10:00:00''\<rparr>, report]) \<and>
   complete_task demo_clock ''2026-01-05T11:00:00'' ''Buy milk''
       (save [milk\<lparr>done := JBool True, completed_at := JStr ''2026-01-05T10:00:00''\<rparr>, report]) =
     (Inl (ValueError ''Task is already completed''),
      save [milk\<lparr>done := JBool True, completed_at := JStr ''2026-01-05T10:00:00''\<rparr>, report])"
proof -
  note spec = complete_task_first_match [OF demo_store_load]
  have none: "\<forall>t \<in> set [milk, report]. title t \<noteq> JStr ''Walk dog''"
    by (simp add: milk_def report_def)
  have a: "complete_task demo_clock ''2026-01-05T10:00:00'' ''Walk dog'' demo_store =
     (Inl (not_found ''Walk dog''), demo_store)"
    using spec [of "''Walk dog''" "''2026-01-05T10:00:00''"] none by blast
  have b: "complete_task demo_clock ''2026-01-05T10:00:00'' ''Write report'' demo_store =
     (Inl (ValueError ''Task is already completed''), demo_store)"
    using spec [of "''Write report''" "''2026-01-05T10:00:00''", THEN conjunct2, rule_format, of "[milk]" report "[]"]
    by (simp add: milk_def report_def)
  have c: "complete_task demo_clock ''2026-01-05T10:00:00'' ''Buy milk'' demo_store =
     (Inr (milk\<lparr>done := JBool True, completed_at := JStr ''2026-01-05T10:00:00''\<rparr>),
      save [milk\<lparr>done := JBool True, completed_at := JStr ''2026-01-05T10:00:00''\<rparr>, report]) \<and>
   complete_task demo_clock ''2026-01-05T11:00:00'' ''Buy milk''
       (save [milk\<lparr>done := JBool True, completed_at := JStr ''2026-01-05T10:00:00''\<rparr>, report]) =
     (Inl (ValueError ''Task is already completed''),
      save [milk\<lparr>done := JBool True, completed_at := JStr ''2026-01-05T10:00:00''\<rparr>, report])"
    using spec [of "''Buy milk''" "''2026-01-05T10:00:00''" demo_clock "''2026-01-05T11:00:00''",
        THEN conjunct2, rule_format, of "[]" milk "[report]"]
    by (simp add: milk_def report_def)
  from demo_store_load a b c show ?thesis by simp
qed

subsection \<open>Deleting a task\<close>

text \<open>
  C3. Let the file load as \<open>tasks\<close>. If no task has exactly the title asked for,
  \<^verbatim>\<open>delete_task\<close> raises the not-found error and the file is as before. Otherwise,
  with \<open>t\<close> the first task with that title, the call returns \<open>t\<close> as it was stored
  and the file holds the list without that one element, everything else in its old
  order; that file loads again, and when no later task had the title either,
  \<^verbatim>\<open>get_task\<close> with it raises the not-found error.
\<close>

theorem delete_task_first_match:
  assumes ld: "load clock s = Inr tasks"
  shows "((\<forall>t \<in> set tasks. title t \<noteq> JStr ti) \<longrightarrow>
            delete_task clock ti s = (Inl (not_found ti), s)) \<and>
         (\<forall>pre t post.
            tasks = pre @ t # post \<and> (\<forall>u \<in> set pre. title u \<noteq> JStr ti) \<and> title t = JStr ti \<longrightarrow>
            delete_task clock ti s = (Inr t, save (pre @ post)) \<and>
            load clock2 (save (pre @ post)) = Inr (pre @ post) \<and>
            ((\<forall>u \<in> set post. title u \<noteq> JStr ti) \<longrightarrow>
               get_task clock2 ti (save (pre @ post)) = (Inl (not_found ti), save (pre @ post))))"
proof (intro conjI impI allI)
  assume "\<forall>t \<in> set tasks. title t \<noteq> JStr ti"
  then have "delete_loop ti [] tasks = Inl (not_found ti)"
    by (rule delete_loop_none)
  with ld show "delete_task clock ti s = (Inl (not_found ti), s)"
    by (simp add: delete_task_def)
next
  fix pre t post
  assume a: "tasks = pre @ t # post \<and> (\<forall>u \<in> set pre. title u \<noteq> JStr ti) \<and> title t = JStr ti"
  then have eq: "tasks = pre @ t # post"
    and pre: "\<forall>u \<in> set pre. title u \<noteq> JStr ti"
    and hit: "title t = JStr ti"
    by simp_all
  have "delete_loop ti [] tasks = Inr (t, pre @ post)"
    using delete_loop_first [OF pre hit, of "[]" post] eq by simp
  with ld show "delete_task clock ti s = (Inr t, save (pre @ post))"
    by (simp add: delete_task_def)
  from ld have "list_all (\<lambda>t. priority_ok (priority t)) tasks"
    by (rule load_priority_ok)
  with eq have "list_all (\<lambda>t. priority_ok (priority t)) (pre @ post)" by simp
  then show reload: "load clock2 (save (pre @ post)) = Inr (pre @ post)" by (rule load_save)
  assume "\<forall>u \<in> set post. title u \<noteq> JStr ti"
  with pre have "\<forall>u \<in> set (pre @ post). title u \<noteq> JStr ti" by auto
  then have "get_loop ti (pre @ post) = Inl (not_found ti)" by (rule get_loop_none)
  with reload show "get_task clock2 ti (save (pre @ post)) = (Inl (not_found ti), save (pre @ post))"
    by (simp add: get_task_def)
qed

theorem delete_task_first_match_witness:
  "load demo_clock demo_store = Inr [milk, report] \<and>
   delete_task demo_clock ''Walk dog'' demo_store = (Inl (not_found ''Walk dog''), demo_store) \<and>
   delete_task demo_clock ''Write report'' demo_store = (Inr report, save [milk]) \<and>
   load demo_clock (save [milk]) = Inr [milk] \<and>
   get_task demo_clock ''Write report'' (save [milk]) =
     (Inl (not_found ''Write report''), save [milk])"
proof -
  note spec = delete_task_first_match [OF demo_store_load]
  have none: "\<forall>t \<in> set [milk, report]. title t \<noteq> JStr ''Walk dog''"
    by (simp add: milk_def report_def)
  have a: "delete_task demo_clock ''Walk dog'' demo_store =
     (Inl (not_found ''Walk dog''), demo_store)"
    using spec [of "''Walk dog''"] none by blast
  have b: "delete_task demo_clock ''Write report'' demo_store = (Inr report, save [milk]) \<and>
     load demo_clock (save [milk]) = Inr [milk] \<and>
     get_task demo_clock ''Write report'' (save [milk]) =
       (Inl (not_found ''Write report''), save [milk])"
    using spec [of "''Write report''" demo_clock, THEN conjunct2, rule_format, of "[milk]" report "[]"]
    by (simp add: milk_def report_def)
  from demo_store_load a b show ?thesis by simp
qed

subsection \<open>Failures write nothing\<close>

text \<open>
  C6. Whenever \<^verbatim>\<open>add_task\<close>, \<^verbatim>\<open>complete_task\<close>, \<^verbatim>\<open>delete_task\<close> or \<^verbatim>\<open>get_task\<close> raises
  (a validation error, a not-found error, or any other exception of the model), the
  content of the file after the call is the content before it.
\<close>

theorem errors_leave_storage:
  "(fst (add_task clock now ti p s) = Inl e1 \<longrightarrow> snd (add_task clock now ti p s) = s) \<and>
   (fst (complete_task clock now ti s) = Inl e2 \<longrightarrow> snd (complete_task clock now ti s) = s) \<and>
   (fst (delete_task clock ti s) = Inl e3 \<longrightarrow> snd (delete_task clock ti s) = s) \<and>
   (fst (get_task clock ti s) = Inl e4 \<longrightarrow> snd (get_task clock ti s) = s)"
proof (intro conjI impI)
  assume "fst (add_task clock now ti p s) = Inl e1"
  then have "isl (fst (add_task clock now ti p s))" by simp
  then show "snd (add_task clock now ti p s) = s" by (rule add_task_error_keeps)
next
  assume "fst (complete_task clock now ti s) = Inl e2"
  then have "isl (fst (complete_task clock now ti s))" by simp
  then show "snd (complete_task clock now ti s) = s" by (rule complete_task_error_keeps)
next
  assume "fst (delete_task clock ti s) = Inl e3"
  then have "isl (fst (delete_task clock ti s))" by simp
  then show "snd (delete_task clock ti s) = s" by (rule delete_task_error_keeps)
next
  show "snd (get_task clock ti s) = s" by (rule get_task_keeps)
qed

theorem errors_leave_storage_witness:
  "fst (add_task demo_clock ''2026-01-05T10:00:00'' [] 1 demo_store) =
     Inl (ValueError ''Task title cannot be empty'') \<and>
   snd (add_task demo_clock ''2026-01-05T10:00:00'' [] 1 demo_store) = demo_store \<and>
   fst (complete_task demo_clock ''2026-01-05T10:00:00'' [] demo_store) = Inl (not_found []) \<and>
   snd (complete_task demo_clock ''2026-01-05T10:00:00'' [] demo_store) = demo_store \<and>
   fst (delete_task demo_clock [] demo_store) = Inl (not_found []) \<and>
   snd (delete_task demo_clock [] demo_store) = demo_store \<and>
   fst (get_task demo_clock [] demo_store) = Inl (not_found []) \<and>
   snd (get_task demo_clock [] demo_store) = demo_store"
proof -
  have a: "fst (add_task demo_clock ''2026-01-05T10:00:00'' [] 1 demo_store) =
     Inl (ValueError ''Task title cannot be empty'')"
    by (simp add: demo_add_empty)
  have c: "fst (complete_task demo_clock ''2026-01-05T10:00:00'' [] demo_store) = Inl (not_found [])"
    by (simp add: demo_complete_missing)
  have d: "fst (delete_task demo_clock [] demo_store) = Inl (not_found [])"
    by (simp add: demo_delete_missing)
  have g: "fst (get_task demo_clock [] demo_store) = Inl (not_found [])"
    by (simp add: demo_get_missing)
  from a c d g
    errors_leave_storage [of demo_clock "''2026-01-05T10:00:00''" "[]" 1 demo_store
      "ValueError ''Task title cannot be empty''" "not_found []" "not_found []" "not_found []"]
  show ?thesis by blast
qed

subsection \<open>A file that does not parse\<close>

text \<open>
  C5, as the code has it. On text on which \<^verbatim>\<open>json.loads\<close> raises \<^verbatim>\<open>JSONDecodeError\<close>,
  \<^verbatim>\<open>_load\<close> returns the empty list and raises nothing; every reading method answers
  as it does on a file holding the empty collection (no task is found, the list of all
  tasks and every list by priority is empty, both counts are 0), and a valid
  \<^verbatim>\<open>add_task\<close> replaces the text by a file with the new task alone. When line 45
  raises any other exception, \<^verbatim>\<open>_load\<close> and every reading method raise it and the
  file stays as it is.
\<close>

theorem decode_failure_policy:
  "load clock (Malformed raw) = Inr [] \<and>
   get_all_tasks clock (Malformed raw) = (Inr [], Malformed raw) \<and>
   get_task clock ti (Malformed raw) = (Inl (not_found ti), Malformed raw) \<and>
   active_tasks_count clock (Malformed raw) = (Inr 0, Malformed raw) \<and>
   completed_tasks_count clock (Malformed raw) = (Inr (PyInt 0), Malformed raw) \<and>
   get_tasks_by_priority clock p (Malformed raw) =
     (if p = 1 \<or> p = 2 \<or> p = 3 then Inr [] else Inl (ValueError ''Priority must be 1, 2, or 3''),
      Malformed raw) \<and>
   get_high_priority_tasks clock (Malformed raw) = (Inr [], Malformed raw) \<and>
   fst (get_all_tasks clock (Malformed raw)) = fst (get_all_tasks clock (save [])) \<and>
   fst (get_task clock ti (Malformed raw)) = fst (get_task clock ti (save [])) \<and>
   fst (active_tasks_count clock (Malformed raw)) = fst (active_tasks_count clock (save [])) \<and>
   fst (completed_tasks_count clock (Malformed raw)) =
     fst (completed_tasks_count clock (save [])) \<and>
   fst (get_tasks_by_priority clock p (Malformed raw)) =
     fst (get_tasks_by_priority clock p (save [])) \<and>
   fst (get_high_priority_tasks clock (Malformed raw)) =
     fst (get_high_priority_tasks clock (save [])) \<and>
   (ti \<noteq> [] \<and> \<not> list_all py_isspace ti \<and> length ti \<le> 200 \<and> (q = 1 \<or> q = 2 \<or> q = 3) \<longrightarrow>
      add_task clock now ti q (Malformed raw) =
        (Inr \<lparr>title = JStr ti, done = JBool False, priority = JInt q,
              created_at = JStr now, completed_at = JNull\<rparr>,
         save [\<lparr>title = JStr ti, done = JBool False, priority = JInt q,
                created_at = JStr now, completed_at = JNull\<rparr>])) \<and>
   load clock (Raising raw2 e) = Inl e \<and>
   get_all_tasks clock (Raising raw2 e) = (Inl e, Raising raw2 e) \<and>
   get_task clock ti (Raising raw2 e) = (Inl e, Raising raw2 e) \<and>
   active_tasks_count clock (Raising raw2 e) = (Inl e, Raising raw2 e) \<and>
   completed_tasks_count clock (Raising raw2 e) = (Inl e, Raising raw2 e) \<and>
   ((p = 1 \<or> p = 2 \<or> p = 3) \<longrightarrow>
      get_tasks_by_priority clock p (Raising raw2 e) = (Inl e, Raising raw2 e)) \<and>
   get_high_priority_tasks clock (Raising raw2 e) = (Inl e, Raising raw2 e)"
proof -
  have reads: "load clock (Malformed raw) = Inr [] \<and>
   get_all_tasks clock (Malformed raw) = (Inr [], Malformed raw) \<and>
   get_task clock ti (Malformed raw) = (Inl (not_found ti), Malformed raw) \<and>
   active_tasks_count clock (Malformed raw) = (Inr 0, Malformed raw) \<and>
   completed_tasks_count clock (Malformed raw) = (Inr (PyInt 0), Malformed raw) \<and>
   get_tasks_by_priority clock p (Malformed raw) =
     (if p = 1 \<or> p = 2 \<or> p = 3 then Inr [] else Inl (ValueError ''Priority must be 1, 2, or 3''),
      Malformed raw) \<and>
   get_high_priority_tasks clock (Malformed raw) = (Inr [], Malformed raw)"
    by (simp add: get_all_tasks_def get_task_def active_tasks_count_def
        completed_tasks_count_def get_tasks_by_priority_def get_high_priority_tasks_def)
  have empty: "fst (get_all_tasks clock (save [])) = Inr [] \<and>
   fst (get_task clock ti (save [])) = Inl (not_found ti) \<and>
   fst (active_tasks_count clock (save [])) = Inr 0 \<and>
   fst (completed_tasks_count clock (save [])) = Inr (PyInt 0) \<and>
   fst (get_tasks_by_priority clock p (save [])) =
     (if p = 1 \<or> p = 2 \<or> p = 3 then Inr [] else Inl (ValueError ''Priority must be 1, 2, or 3'')) \<and>
   fst (get_high_priority_tasks clock (save [])) = Inr []"
    by (simp add: get_all_tasks_def get_task_def active_tasks_count_def
        completed_tasks_count_def get_tasks_by_priority_def get_high_priority_tasks_def save_def)
  have adds: "ti \<noteq> [] \<and> \<not> list_all py_isspace ti \<and> length ti \<le> 200 \<and> (q = 1 \<or> q = 2 \<or> q = 3) \<longrightarrow>
      add_task clock now ti q (Malformed raw) =
        (Inr \<lparr>title = JStr ti, done = JBool False, priority = JInt q,
              created_at = JStr now, completed_at = JNull\<rparr>,
         save [\<lparr>title = JStr ti, done = JBool False, priority = JInt q,
                created_at = JStr now, completed_at = JNull\<rparr>])"
    using add_task_ok [of ti q clock "Malformed raw" "[]" now] by simp
  have raises: "load clock (Raising raw2 e) = Inl e \<and>
   get_all_tasks clock (Raising raw2 e) = (Inl e, Raising raw2 e) \<and>
   get_task clock ti (Raising raw2 e) = (Inl e, Raising raw2 e) \<and>
   active_tasks_count clock (Raising raw2 e) = (Inl e, Raising raw2 e) \<and>
   completed_tasks_count clock (Raising raw2 e) = (Inl e, Raising raw2 e) \<and>
   ((p = 1 \<or> p = 2 \<or> p = 3) \<longrightarrow>
      get_tasks_by_priority clock p (Raising raw2 e) = (Inl e, Raising raw2 e)) \<and>
   get_high_priority_tasks clock (Raising raw2 e) = (Inl e, Raising raw2 e)"
    by (simp add: get_all_tasks_def get_task_def active_tasks_count_def
        completed_tasks_count_def get_tasks_by_priority_def get_high_priority_tasks_def)
  from reads empty adds raises show ?thesis by simp
qed

theorem decode_failure_policy_witness:
  "load demo_clock (Malformed ''{not json'') = Inr [] \<and>
   get_task demo_clock ''Buy milk'' (Malformed ''{not json'') =
     (Inl (not_found ''Buy milk''), Malformed ''{not json'') \<and>
   get_tasks_by_priority demo_clock 2 (Malformed ''{not json'') =
     (Inr [], Malformed ''{not json'') \<and>
   add_task demo_clock ''2026-01-02T08:00:00'' ''Buy milk'' 2 (Malformed ''{not json'') =
     (Inr milk, save [milk]) \<and>
   get_task demo_clock ''Buy milk'' deep_store = (Inl RecursionError, deep_store) \<and>
   get_tasks_by_priority demo_clock 2 deep_store = (Inl RecursionError, deep_store)"
proof -
  have t: "''Buy milk'' \<noteq> [] \<and> \<not> list_all py_isspace ''Buy milk'' \<and> length ''Buy milk'' \<le> 200 \<and>
      ((2::int) = 1 \<or> (2::int) = 2 \<or> (2::int) = 3)"
    by (simp add: py_isspace_def)
  have p: "(2::int) = 1 \<or> (2::int) = 2 \<or> (2::int) = 3" by simp
  note inst = decode_failure_policy [where clock = demo_clock and raw = "''{not json''"
      and ti = "''Buy milk''" and p = 2 and q = 2 and now = "''2026-01-02T08:00:00''"
      and ?raw2.0 = "replicate 2000 CHR ''[''" and e = RecursionError]
  from t inst
  have a: "load demo_clock (Malformed ''{not json'') = Inr [] \<and>
      get_task demo_clock ''Buy milk'' (Malformed ''{not json'') =
        (Inl (not_found ''Buy milk''), Malformed ''{not json'') \<and>
      get_tasks_by_priority demo_clock 2 (Malformed ''{not json'') =
        (Inr [], Malformed ''{not json'') \<and>
      add_task demo_clock ''2026-01-02T08:00:00'' ''Buy milk'' 2 (Malformed ''{not json'') =
        (Inr milk, save [milk])"
    by (simp add: milk_def)
  from p inst
  have b: "get_task demo_clock ''Buy milk'' deep_store = (Inl RecursionError, deep_store) \<and>
      get_tasks_by_priority demo_clock 2 deep_store = (Inl RecursionError, deep_store)"
    unfolding deep_store_def by blast
  from a b show ?thesis by simp
qed

text \<open>
  The claim as stated, for every content that fails to parse, does not hold: on a file
  of 2000 opening brackets parsing fails with \<^verbatim>\<open>RecursionError\<close>, which the
  \<^verbatim>\<open>except\<close> clause of line 47 does not catch, so \<^verbatim>\<open>_load\<close> and the methods built on it
  raise instead of answering as on an empty collection.
\<close>

theorem decode_failure_policy_counterexample:
  "load demo_clock deep_store = Inl RecursionError \<and>
   get_all_tasks demo_clock deep_store = (Inl RecursionError, deep_store) \<and>
   active_tasks_count demo_clock deep_store = (Inl RecursionError, deep_store)"
  by (simp add: deep_store_def get_all_tasks_def active_tasks_count_def)

subsection \<open>The invariant of stored tasks\<close>

text \<open>
  C7. Every file content that \<^verbatim>\<open>add_task\<close>, \<^verbatim>\<open>complete_task\<close> and \<^verbatim>\<open>delete_task\<close> can
  produce from the initial empty file loads without error, and every task in it has a
  completion time exactly when \<open>done\<close> is \<^verbatim>\<open>True\<close>, and a priority of 1, 2 or 3.
\<close>

theorem reachable_tasks_invariant:
  assumes "reachable s"
  shows "\<exists>tasks. (\<forall>clock. load clock s = Inr tasks) \<and>
           (\<forall>t \<in> set tasks.
              ((completed_at t \<noteq> JNull) = (done t = JBool True)) \<and>
              (priority t = JInt 1 \<or> priority t = JInt 2 \<or> priority t = JInt 3))"
proof -
  from assms obtain ts where s: "s = save ts" and inv: "list_all task_inv ts"
    using reachable_saved by blast
  from inv have "\<forall>clock. load clock s = Inr ts"
    unfolding s by (intro allI load_save task_inv_priority_ok)
  moreover from inv have "\<forall>t \<in> set ts.
      ((completed_at t \<noteq> JNull) = (done t = JBool True)) \<and>
      (priority t = JInt 1 \<or> priority t = JInt 2 \<or> priority t = JInt 3)"
    by (simp add: list_all_iff task_inv_def)
  ultimately show ?thesis by blast
qed

theorem reachable_tasks_invariant_witness:
  "reachable (save [milk\<lparr>done := JBool True, completed_at := JStr ''2026-01-05T10:00:00''\<rparr>]) \<and>
   load demo_clock (save [milk\<lparr>done := JBool True, completed_at := JStr ''2026-01-05T10:00:00''\<rparr>]) =
     Inr [milk\<lparr>done := JBool True, completed_at := JStr ''2026-01-05T10:00:00''\<rparr>] \<and>
   (completed_at (milk\<lparr>done := JBool True, completed_at := JStr ''2026-01-05T10:00:00''\<rparr>) \<noteq> JNull) =
     (done (milk\<lparr>done := JBool True, completed_at := JStr ''2026-01-05T10:00:00''\<rparr>) = JBool True) \<and>
   (priority (milk\<lparr>done := JBool True, completed_at := JStr ''2026-01-05T10:00:00''\<rparr>) = JInt 1 \<or>
    priority (milk\<lparr>done := JBool True, completed_at := JStr ''2026-01-05T10:00:00''\<rparr>) = JInt 2 \<or>
    priority (milk\<lparr>done := JBool True, completed_at := JStr ''2026-01-05T10:00:00''\<rparr>) = JInt 3)"
proof -
  let ?m = "milk\<lparr>done := JBool True, completed_at := JStr ''2026-01-05T10:00:00''\<rparr>"
  have ld: "load demo_clock (save [?m]) = Inr [?m]"
    by (rule load_save) (simp add: milk_def)
  from reachable_tasks_invariant [OF reachable_milk_done] obtain tasks where
    t: "\<forall>clock. load clock (save [?m]) = Inr tasks" and
    i: "\<forall>t \<in> set tasks. ((completed_at t \<noteq> JNull) = (done t = JBool True)) \<and>
          (priority t = JInt 1 \<or> priority t = JInt 2 \<or> priority t = JInt 3)"
    by blast
  from t ld have "tasks = [?m]" by simp
  with i have "((completed_at ?m \<noteq> JNull) = (done ?m = JBool True)) \<and>
      (priority ?m = JInt 1 \<or> priority ?m = JInt 2 \<or> priority ?m = JInt 3)"
    by simp
  with reachable_milk_done ld show ?thesis by blast
qed

subsection \<open>Filtering by priority\<close>

text \<open>
  C9. \<^verbatim>\<open>get_tasks_by_priority\<close> raises the validation error when the priority is not
  1, 2 or 3. Otherwise it fails as \<^verbatim>\<open>get_all_tasks\<close> fails, and when that returns
  \<open>tasks\<close> it returns the tasks among them whose priority equals the argument (as
  Python's \<^verbatim>\<open>==\<close> compares: the integer itself, or \<^verbatim>\<open>True\<close> for 1), in their order in
  \<open>tasks\<close>. The file is the same afterwards in every case.
\<close>

theorem tasks_by_priority_filter:
  "(\<not> (p = 1 \<or> p = 2 \<or> p = 3) \<longrightarrow>
      get_tasks_by_priority clock p s = (Inl (ValueError ''Priority must be 1, 2, or 3''), s)) \<and>
   ((p = 1 \<or> p = 2 \<or> p = 3) \<longrightarrow>
      (\<forall>e. get_all_tasks clock s = (Inl e, s) \<longrightarrow> get_tasks_by_priority clock p s = (Inl e, s)) \<and>
      (\<forall>tasks. get_all_tasks clock s = (Inr tasks, s) \<longrightarrow>
         get_tasks_by_priority clock p s = (Inr (filter (\<lambda>t. py_eq_int (priority t) p) tasks), s) \<and>
         subseq (filter (\<lambda>t. py_eq_int (priority t) p) tasks) tasks \<and>
         (\<forall>t \<in> set tasks.
            py_eq_int (priority t) p \<longleftrightarrow> priority t = JInt p \<or> (p = 1 \<and> priority t = JBool True))))"
proof (intro conjI impI allI ballI)
  assume "\<not> (p = 1 \<or> p = 2 \<or> p = 3)"
  then show "get_tasks_by_priority clock p s = (Inl (ValueError ''Priority must be 1, 2, or 3''), s)"
    by (simp add: get_tasks_by_priority_def)
next
  fix e
  assume "p = 1 \<or> p = 2 \<or> p = 3" and "get_all_tasks clock s = (Inl e, s)"
  then show "get_tasks_by_priority clock p s = (Inl e, s)"
    by (auto simp: get_tasks_by_priority_def get_all_tasks_def)
next
  fix tasks
  assume "p = 1 \<or> p = 2 \<or> p = 3" and "get_all_tasks clock s = (Inr tasks, s)"
  then show "get_tasks_by_priority clock p s =
      (Inr (filter (\<lambda>t. py_eq_int (priority t) p) tasks), s)"
    by (auto simp: get_tasks_by_priority_def get_all_tasks_def)
next
  fix tasks
  show "subseq (filter (\<lambda>t. py_eq_int (priority t) p) tasks) tasks"
    by (rule subseq_filter_left)
next
  fix tasks t
  assume p: "p = 1 \<or> p = 2 \<or> p = 3" and "get_all_tasks clock s = (Inr tasks, s)"
    and t: "t \<in> set tasks"
  then have "load clock s = Inr tasks" by (simp add: get_all_tasks_def)
  then have "list_all (\<lambda>t. priority_ok (priority t)) tasks" by (rule load_priority_ok)
  with t have "priority_ok (priority t)" by (simp add: list_all_iff)
  then show "py_eq_int (priority t) p \<longleftrightarrow>
      priority t = JInt p \<or> (p = 1 \<and> priority t = JBool True)"
    using p by (rule loaded_priority_eq)
qed

theorem tasks_by_priority_filter_witness:
  "get_all_tasks demo_clock demo_store = (Inr [milk, report], demo_store) \<and>
   get_tasks_by_priority demo_clock 3 demo_store = (Inr [report], demo_store) \<and>
   get_tasks_by_priority demo_clock 5 demo_store =
     (Inl (ValueError ''Priority must be 1, 2, or 3''), demo_store)"
proof -
  have all: "get_all_tasks demo_clock demo_store = (Inr [milk, report], demo_store)"
    by (simp add: get_all_tasks_def demo_store_load)
  have "get_tasks_by_priority demo_clock 3 demo_store =
      (Inr (filter (\<lambda>t. py_eq_int (priority t) 3) [milk, report]), demo_store)"
    using tasks_by_priority_filter [of 3 demo_clock demo_store] all by blast
  then have a: "get_tasks_by_priority demo_clock 3 demo_store = (Inr [report], demo_store)"
    by (simp add: milk_def report_def)
  have b: "get_tasks_by_priority demo_clock 5 demo_store =
     (Inl (ValueError ''Priority must be 1, 2, or 3''), demo_store)"
    using tasks_by_priority_filter [of 5 demo_clock demo_store] by simp
  from all a b show ?thesis by simp
qed

subsection \<open>Adding a task and reading it back\<close>

text \<open>
  C1, as the code has it. Let the title be valid (not empty, not only whitespace, at
  most 200 characters) and the priority 1, 2 or 3; let the file load without error,
  as \<open>tasks\<close>, and let no task in it have that title. Then \<^verbatim>\<open>add_task\<close> returns a new
  task and appends it to the file, and \<^verbatim>\<open>get_task\<close> with the title then returns that
  task: title and priority are the arguments, \<open>done\<close> is \<^verbatim>\<open>False\<close> and \<open>completed_at\<close>
  is \<^verbatim>\<open>None\<close>.
\<close>

theorem add_then_get:
  assumes "ti \<noteq> []" and "\<not> list_all py_isspace ti" and "length ti \<le> 200"
    and "p = 1 \<or> p = 2 \<or> p = 3"
    and "load clock s = Inr tasks"
    and "\<forall>u \<in> set tasks. title u \<noteq> JStr ti"
  shows "\<exists>t. add_task clock now ti p s = (Inr t, save (tasks @ [t])) \<and>
           get_task clock2 ti (save (tasks @ [t])) = (Inr t, save (tasks @ [t])) \<and>
           title t = JStr ti \<and> priority t = JInt p \<and> done t = JBool False \<and>
           completed_at t = JNull"
proof -
  let ?t = "\<lparr>title = JStr ti, done = JBool False, priority = JInt p,
             created_at = JStr now, completed_at = JNull\<rparr>"
  have added: "add_task clock now ti p s = (Inr ?t, save (tasks @ [?t]))"
    using assms(1-5) by (rule add_task_ok)
  from assms(5) have "list_all (\<lambda>t. priority_ok (priority t)) tasks"
    by (rule load_priority_ok)
  with assms(4) have "list_all (\<lambda>t. priority_ok (priority t)) (tasks @ [?t])" by auto
  then have reload: "load clock2 (save (tasks @ [?t])) = Inr (tasks @ [?t])"
    by (rule load_save)
  have "get_loop ti (tasks @ ?t # []) = Inr ?t"
    using assms(6) by (intro get_loop_first) simp_all
  with reload have "get_task clock2 ti (save (tasks @ [?t])) = (Inr ?t, save (tasks @ [?t]))"
    by (simp add: get_task_def)
  with added show ?thesis by simp
qed

theorem add_then_get_witness:
  "load demo_clock demo_store = Inr [milk, report] \<and>
   add_task demo_clock ''2026-01-05T10:00:00'' ''Walk dog'' 1 demo_store =
     (Inr \<lparr>title = JStr ''Walk dog'', done = JBool False, priority = JInt 1,
           created_at = JStr ''2026-01-05T10:00:00'', completed_at = JNull\<rparr>,
      save [milk, report,
            \<lparr>title = JStr ''Walk dog'', done = JBool False, priority = JInt 1,
             created_at = JStr ''2026-01-05T10:00:00'', completed_at = JNull\<rparr>]) \<and>
   get_task demo_clock ''Walk dog''
       (save [milk, report,
              \<lparr>title = JStr ''Walk dog'', done = JBool False, priority = JInt 1,
               created_at = JStr ''2026-01-05T10:00:00'', completed_at = JNull\<rparr>]) =
     (Inr \<lparr>title = JStr ''Walk dog'', done = JBool False, priority = JInt 1,
           created_at = JStr ''2026-01-05T10:00:00'', completed_at = JNull\<rparr>,
      save [milk, report,
            \<lparr>title = JStr ''Walk dog'', done = JBool False, priority = JInt 1,
             created_at = JStr ''2026-01-05T10:00:00'', completed_at = JNull\<rparr>])"
proof -
  let ?t = "\<lparr>title = JStr ''Walk dog'', done = JBool False, priority = JInt 1,
             created_at = JStr ''2026-01-05T10:00:00'', completed_at = JNull\<rparr>"
  have h1: "''Walk dog'' \<noteq> []" by simp
  have h2: "\<not> list_all py_isspace ''Walk dog''" by (simp add: py_isspace_def)
  have h3: "length ''Walk dog'' \<le> 200" by simp
  have h4: "(1::int) = 1 \<or> (1::int) = 2 \<or> (1::int) = 3" by simp
  have h6: "\<forall>u \<in> set [milk, report]. title u \<noteq> JStr ''Walk dog''"
    by (simp add: milk_def report_def)
  have added: "add_task demo_clock ''2026-01-05T10:00:00'' ''Walk dog'' 1 demo_store =
      (Inr ?t, save [milk, report, ?t])"
    using add_task_ok [OF h1 h2 h3 h4 demo_store_load, of "''2026-01-05T10:00:00''"] by simp
  from add_then_get [OF h1 h2 h3 h4 demo_store_load h6,
      of "''2026-01-05T10:00:00''" demo_clock]
  obtain t where
    a: "add_task demo_clock ''2026-01-05T10:00:00'' ''Walk dog'' 1 demo_store =
          (Inr t, save ([milk, report] @ [t]))" and
    g: "get_task demo_clock ''Walk dog'' (save ([milk, report] @ [t])) =
          (Inr t, save ([milk, report] @ [t]))"
    by blast
  from a added have "t = ?t" by simp
  with g have "get_task demo_clock ''Walk dog'' (save [milk, report, ?t]) =
      (Inr ?t, save [milk, report, ?t])"
    by simp
  with demo_store_load added show ?thesis by simp
qed

text \<open>
  The claim as stated, for any prior content of the file, fails twice. When a task
  with the title is already stored, \<^verbatim>\<open>get_task\<close> returns that earlier task: here one
  that is done and has priority 3, after adding the same title with priority 1. And
  when the file holds an entry that \<^verbatim>\<open>Task\<close> rejects, \<^verbatim>\<open>add_task\<close> itself raises.
\<close>

theorem add_then_get_counterexample:
  "fst (get_task demo_clock ''Write report''
     (snd (add_task demo_clock ''2026-01-05T10:00:00'' ''Write report'' 1 (save [report])))) =
     Inr report \<and>
   priority report = JInt 3 \<and> done report = JBool True \<and>
   completed_at report = JStr ''2026-01-04T17:30:00'' \<and>
   add_task demo_clock ''2026-01-05T10:00:00'' ''Write report'' 1 bad_priority_store =
     (Inl (ValueError ''Priority must be 1, 2, or 3''), bad_priority_store)"
proof -
  let ?t = "\<lparr>title = JStr ''Write report'', done = JBool False, priority = JInt 1,
             created_at = JStr ''2026-01-05T10:00:00'', completed_at = JNull\<rparr>"
  have "add_task demo_clock ''2026-01-05T10:00:00'' ''Write report'' 1 (save [report]) =
      (Inr ?t, save [report, ?t])"
    using strip_report by (simp add: add_task_def load_report mk_task_new)
  moreover have "load demo_clock (save [report, ?t]) = Inr [report, ?t]"
    by (rule load_save) (simp add: report_def)
  then have "get_task demo_clock ''Write report'' (save [report, ?t]) =
      (Inr report, save [report, ?t])"
    by (simp add: get_task_def) (simp add: report_def)
  ultimately have a: "fst (get_task demo_clock ''Write report''
     (snd (add_task demo_clock ''2026-01-05T10:00:00'' ''Write report'' 1 (save [report])))) =
     Inr report"
    by simp
  have b: "add_task demo_clock ''2026-01-05T10:00:00'' ''Write report'' 1 bad_priority_store =
     (Inl (ValueError ''Priority must be 1, 2, or 3''), bad_priority_store)"
    using strip_report by (simp add: add_task_def bad_priority_load)
  from a b show ?thesis by (simp add: report_def)
qed

subsection \<open>Validation in \<^verbatim>\<open>add_task\<close>\<close>

text \<open>
  C4, as the code has it. An empty, whitespace-only or too long title makes
  \<^verbatim>\<open>add_task\<close> raise \<^verbatim>\<open>ValueError\<close> whatever the file holds. When the file loads
  without error, \<^verbatim>\<open>add_task\<close> raises \<^verbatim>\<open>ValueError\<close> if and only if the title is empty,
  only whitespace or longer than 200 characters, or the priority is not 1, 2 or 3;
  otherwise it returns the new task and appends it. So on such a file a title of 200
  characters is accepted and one of 201 is refused.
\<close>

theorem add_task_validation:
  "((ti = [] \<or> list_all py_isspace ti \<or> length ti > 200) \<longrightarrow>
      (\<exists>msg. add_task clock now ti p s = (Inl (ValueError msg), s))) \<and>
   (load clock s = Inr tasks \<longrightarrow>
      ((\<exists>msg. fst (add_task clock now ti p s) = Inl (ValueError msg)) \<longleftrightarrow>
         (ti = [] \<or> list_all py_isspace ti \<or> length ti > 200 \<or> \<not> (p = 1 \<or> p = 2 \<or> p = 3))) \<and>
      (\<not> (ti = [] \<or> list_all py_isspace ti \<or> length ti > 200 \<or> \<not> (p = 1 \<or> p = 2 \<or> p = 3)) \<longrightarrow>
         add_task clock now ti p s =
           (Inr \<lparr>title = JStr ti, done = JBool False, priority = JInt p,
                 created_at = JStr now, completed_at = JNull\<rparr>,
            save (tasks @ [\<lparr>title = JStr ti, done = JBool False, priority = JInt p,
                            created_at = JStr now, completed_at = JNull\<rparr>]))))"
proof (intro conjI impI)
  assume "ti = [] \<or> list_all py_isspace ti \<or> length ti > 200"
  then show "\<exists>msg. add_task clock now ti p s = (Inl (ValueError msg), s)"
    by (rule add_task_title_errors)
next
  assume ld: "load clock s = Inr tasks"
  show "(\<exists>msg. fst (add_task clock now ti p s) = Inl (ValueError msg)) \<longleftrightarrow>
     (ti = [] \<or> list_all py_isspace ti \<or> length ti > 200 \<or> \<not> (p = 1 \<or> p = 2 \<or> p = 3))"
  proof (cases "ti = [] \<or> list_all py_isspace ti \<or> length ti > 200")
    case True
    then obtain msg where "add_task clock now ti p s = (Inl (ValueError msg), s)"
      using add_task_title_errors by blast
    then have "\<exists>msg. fst (add_task clock now ti p s) = Inl (ValueError msg)" by simp
    with True show ?thesis by blast
  next
    case title_ok: False
    show ?thesis
    proof (cases "p = 1 \<or> p = 2 \<or> p = 3")
      case True
      with title_ok ld have "add_task clock now ti p s =
          (Inr \<lparr>title = JStr ti, done = JBool False, priority = JInt p,
                created_at = JStr now, completed_at = JNull\<rparr>,
           save (tasks @ [\<lparr>title = JStr ti, done = JBool False, priority = JInt p,
                           created_at = JStr now, completed_at = JNull\<rparr>]))"
        by (intro add_task_ok) simp_all
      with title_ok True show ?thesis by simp
    next
      case False
      with title_ok ld have "fst (add_task clock now ti p s) =
          Inl (ValueError ''Priority must be 1, 2, or 3'')"
        by (simp add: add_task_def strip_empty_iff mk_task_new_bad)
      with False show ?thesis by simp
    qed
  qed
next
  assume "load clock s = Inr tasks"
    and "\<not> (ti = [] \<or> list_all py_isspace ti \<or> length ti > 200 \<or> \<not> (p = 1 \<or> p = 2 \<or> p = 3))"
  then show "add_task clock now ti p s =
      (Inr \<lparr>title = JStr ti, done = JBool False, priority = JInt p,
            created_at = JStr now, completed_at = JNull\<rparr>,
       save (tasks @ [\<lparr>title = JStr ti, done = JBool False, priority = JInt p,
                       created_at = JStr now, completed_at = JNull\<rparr>]))"
    by (intro add_task_ok) simp_all
qed

theorem add_task_validation_witness:
  "load demo_clock demo_store = Inr [milk, report] \<and>
   length (replicate 200 CHR ''a'') = 200 \<and>
   add_task demo_clock ''2026-01-05T10:00:00'' (replicate 200 CHR ''a'') 1 demo_store =
     (Inr \<lparr>title = JStr (replicate 200 CHR ''a''), done = JBool False, priority = JInt 1,
           created_at = JStr ''2026-01-05T10:00:00'', completed_at = JNull\<rparr>,
      save ([milk, report] @
            [\<lparr>title = JStr (replicate 200 CHR ''a''), done = JBool False, priority = JInt 1,
              created_at = JStr ''2026-01-05T10:00:00'', completed_at = JNull\<rparr>])) \<and>
   length (replicate 201 CHR ''a'') = 201 \<and>
   (\<exists>msg. add_task demo_clock ''2026-01-05T10:00:00'' (replicate 201 CHR ''a'') 1 demo_store =
      (Inl (ValueError msg), demo_store)) \<and>
   (\<exists>msg. fst (add_task demo_clock ''2026-01-05T10:00:00'' ''Walk dog'' 4 demo_store) =
      Inl (ValueError msg))"
proof -
  have ok: "\<not> (replicate 200 CHR ''a'' = [] \<or> list_all py_isspace (replicate 200 CHR ''a'') \<or>
      length (replicate 200 CHR ''a'') > 200 \<or> \<not> ((1::int) = 1 \<or> (1::int) = 2 \<or> (1::int) = 3))"
    using replicate_not_space [of 200] by simp
  have a: "add_task demo_clock ''2026-01-05T10:00:00'' (replicate 200 CHR ''a'') 1 demo_store =
     (Inr \<lparr>title = JStr (replicate 200 CHR ''a''), done = JBool False, priority = JInt 1,
           created_at = JStr ''2026-01-05T10:00:00'', completed_at = JNull\<rparr>,
      save ([milk, report] @
            [\<lparr>title = JStr (replicate 200 CHR ''a''), done = JBool False, priority = JInt 1,
              created_at = JStr ''2026-01-05T10:00:00'', completed_at = JNull\<rparr>]))"
    using add_task_validation [of "replicate 200 CHR ''a''" demo_clock "''2026-01-05T10:00:00''" 1
        demo_store "[milk, report]"] demo_store_load ok
    by blast
  have long: "replicate 201 CHR ''a'' = [] \<or> list_all py_isspace (replicate 201 CHR ''a'') \<or>
      length (replicate 201 CHR ''a'') > 200"
    by simp
  have b: "\<exists>msg. add_task demo_clock ''2026-01-05T10:00:00'' (replicate 201 CHR ''a'') 1 demo_store =
      (Inl (ValueError msg), demo_store)"
    using add_task_validation [of "replicate 201 CHR ''a''" demo_clock "''2026-01-05T10:00:00''" 1
        demo_store "[milk, report]"] long
    by blast
  have bad: "''Walk dog'' = [] \<or> list_all py_isspace ''Walk dog'' \<or> length ''Walk dog'' > 200 \<or>
      \<not> ((4::int) = 1 \<or> (4::int) = 2 \<or> (4::int) = 3)"
    by simp
  have c: "\<exists>msg. fst (add_task demo_clock ''2026-01-05T10:00:00'' ''Walk dog'' 4 demo_store) =
      Inl (ValueError msg)"
    using add_task_validation [of "''Walk dog''" demo_clock "''2026-01-05T10:00:00''" 4
        demo_store "[milk, report]"] demo_store_load bad
    by blast
  from demo_store_load a b c show ?thesis by simp
qed

text \<open>
  Without the condition on the file the equivalence fails: with a stored entry of
  priority 5, \<^verbatim>\<open>add_task\<close> raises \<^verbatim>\<open>ValueError\<close> for a valid title and a valid priority,
  because \<^verbatim>\<open>_load\<close> lets the error of \<^verbatim>\<open>__post_init__\<close> through.
\<close>

theorem add_task_validation_counterexample:
  "''Walk dog'' \<noteq> [] \<and> strip ''Walk dog'' \<noteq> [] \<and> length ''Walk dog'' \<le> 200 \<and>
   add_task demo_clock ''2026-01-05T10:00:00'' ''Walk dog'' 2 bad_priority_store =
     (Inl (ValueError ''Priority must be 1, 2, or 3''), bad_priority_store)"
proof -
  have s: "strip ''Walk dog'' \<noteq> []" by (simp add: strip_empty_iff py_isspace_def)
  then show ?thesis by (simp add: add_task_def bad_priority_load)
qed

subsection \<open>Well-formed JSON that is no list of tasks\<close>

text \<open>
  C10, as the code has it. Let \<^verbatim>\<open>json.loads\<close> decode the file to the value \<open>v\<close>.
  \<^verbatim>\<open>_load\<close> raises exactly when \<open>v\<close> is \<open>bad_data\<close>: a value that cannot be iterated, a
  dict or string that is not empty, or an array with an entry that is no object, has
  a key that is no field, lacks \<^verbatim>\<open>title\<close> or has a priority that \<^verbatim>\<open>__post_init__\<close>
  rejects. The error is then a \<^verbatim>\<open>TypeError\<close> or the \<^verbatim>\<open>ValueError\<close> of \<^verbatim>\<open>__post_init__\<close>;
  it comes out of \<^verbatim>\<open>get_all_tasks\<close>, \<^verbatim>\<open>get_task\<close>, \<^verbatim>\<open>complete_task\<close>, \<^verbatim>\<open>delete_task\<close> and
  both counts, and out of \<^verbatim>\<open>add_task\<close> and \<^verbatim>\<open>get_tasks_by_priority\<close> when their own
  checks of the arguments pass, and the file is left as it was. The same holds, with
  the exception raised there, for a file on which line 45 itself raises anything but
  \<^verbatim>\<open>JSONDecodeError\<close>. Every other decoded value loads without error: the empty dict
  and the empty string give the empty list, and an array of accepted entries gives
  one task for each entry, in order, where each field is the entry's value for it or,
  when the entry has none, the default of the dataclass.
\<close>

theorem bad_data_propagates:
  "((\<exists>e. load clock (Wellformed v) = Inl e) \<longleftrightarrow> bad_data v) \<and>
   (bad_data v \<longrightarrow>
      (\<exists>e. (e = TypeError \<or> e = ValueError ''Priority must be 1, 2, or 3'') \<and>
         load clock (Wellformed v) = Inl e \<and>
         get_all_tasks clock (Wellformed v) = (Inl e, Wellformed v) \<and>
         get_task clock ti (Wellformed v) = (Inl e, Wellformed v) \<and>
         complete_task clock now ti (Wellformed v) = (Inl e, Wellformed v) \<and>
         delete_task clock ti (Wellformed v) = (Inl e, Wellformed v) \<and>
         active_tasks_count clock (Wellformed v) = (Inl e, Wellformed v) \<and>
         completed_tasks_count clock (Wellformed v) = (Inl e, Wellformed v) \<and>
         (ti \<noteq> [] \<and> \<not> list_all py_isspace ti \<and> length ti \<le> 200 \<longrightarrow>
            add_task clock now ti p (Wellformed v) = (Inl e, Wellformed v)) \<and>
         ((p = 1 \<or> p = 2 \<or> p = 3) \<longrightarrow>
            get_tasks_by_priority clock p (Wellformed v) = (Inl e, Wellformed v)))) \<and>
   (load clock (Raising raw x) = Inl x \<and>
    get_all_tasks clock (Raising raw x) = (Inl x, Raising raw x) \<and>
    get_task clock ti (Raising raw x) = (Inl x, Raising raw x) \<and>
    complete_task clock now ti (Raising raw x) = (Inl x, Raising raw x) \<and>
    delete_task clock ti (Raising raw x) = (Inl x, Raising raw x) \<and>
    active_tasks_count clock (Raising raw x) = (Inl x, Raising raw x) \<and>
    completed_tasks_count clock (Raising raw x) = (Inl x, Raising raw x) \<and>
    (ti \<noteq> [] \<and> \<not> list_all py_isspace ti \<and> length ti \<le> 200 \<longrightarrow>
       add_task clock now ti p (Raising raw x) = (Inl x, Raising raw x)) \<and>
    ((p = 1 \<or> p = 2 \<or> p = 3) \<longrightarrow>
       get_tasks_by_priority clock p (Raising raw x) = (Inl x, Raising raw x))) \<and>
   load clock (Wellformed (JObj [])) = Inr [] \<and>
   load clock (Wellformed (JStr [])) = Inr [] \<and>
   (list_all (\<lambda>kvs. record_ok (JObj kvs)) kvss \<longrightarrow>
      load clock (Wellformed (JArr (map JObj kvss))) =
        Inr (map (\<lambda>(i, kvs). with_defaults (clock i) kvs) (enumerate 0 kvss)))"
proof -
  have p1: "(\<exists>e. load clock (Wellformed v) = Inl e) \<longleftrightarrow> bad_data v"
    by (rule load_fails_iff)
  have p2: "bad_data v \<longrightarrow>
      (\<exists>e. (e = TypeError \<or> e = ValueError ''Priority must be 1, 2, or 3'') \<and>
         load clock (Wellformed v) = Inl e \<and>
         get_all_tasks clock (Wellformed v) = (Inl e, Wellformed v) \<and>
         get_task clock ti (Wellformed v) = (Inl e, Wellformed v) \<and>
         complete_task clock now ti (Wellformed v) = (Inl e, Wellformed v) \<and>
         delete_task clock ti (Wellformed v) = (Inl e, Wellformed v) \<and>
         active_tasks_count clock (Wellformed v) = (Inl e, Wellformed v) \<and>
         completed_tasks_count clock (Wellformed v) = (Inl e, Wellformed v) \<and>
         (ti \<noteq> [] \<and> \<not> list_all py_isspace ti \<and> length ti \<le> 200 \<longrightarrow>
            add_task clock now ti p (Wellformed v) = (Inl e, Wellformed v)) \<and>
         ((p = 1 \<or> p = 2 \<or> p = 3) \<longrightarrow>
            get_tasks_by_priority clock p (Wellformed v) = (Inl e, Wellformed v)))"
  proof
    assume "bad_data v"
    then obtain e where ld: "load clock (Wellformed v) = Inl e"
      using load_fails_iff by blast
    then have kind: "e = TypeError \<or> e = ValueError ''Priority must be 1, 2, or 3''"
      by (rule load_error_kind)
    from ld kind load_error_propagates [OF ld, of ti now p]
    show "\<exists>e. (e = TypeError \<or> e = ValueError ''Priority must be 1, 2, or 3'') \<and>
         load clock (Wellformed v) = Inl e \<and>
         get_all_tasks clock (Wellformed v) = (Inl e, Wellformed v) \<and>
         get_task clock ti (Wellformed v) = (Inl e, Wellformed v) \<and>
         complete_task clock now ti (Wellformed v) = (Inl e, Wellformed v) \<and>
         delete_task clock ti (Wellformed v) = (Inl e, Wellformed v) \<and>
         active_tasks_count clock (Wellformed v) = (Inl e, Wellformed v) \<and>
         completed_tasks_count clock (Wellformed v) = (Inl e, Wellformed v) \<and>
         (ti \<noteq> [] \<and> \<not> list_all py_isspace ti \<and> length ti \<le> 200 \<longrightarrow>
            add_task clock now ti p (Wellformed v) = (Inl e, Wellformed v)) \<and>
         ((p = 1 \<or> p = 2 \<or> p = 3) \<longrightarrow>
            get_tasks_by_priority clock p (Wellformed v) = (Inl e, Wellformed v))"
      by blast
  qed
  have ld: "load clock (Raising raw x) = Inl x" by simp
  have p3: "load clock (Raising raw x) = Inl x \<and>
    get_all_tasks clock (Raising raw x) = (Inl x, Raising raw x) \<and>
    get_task clock ti (Raising raw x) = (Inl x, Raising raw x) \<and>
    complete_task clock now ti (Raising raw x) = (Inl x, Raising raw x) \<and>
    delete_task clock ti (Raising raw x) = (Inl x, Raising raw x) \<and>
    active_tasks_count clock (Raising raw x) = (Inl x, Raising raw x) \<and>
    completed_tasks_count clock (Raising raw x) = (Inl x, Raising raw x) \<and>
    (ti \<noteq> [] \<and> \<not> list_all py_isspace ti \<and> length ti \<le> 200 \<longrightarrow>
       add_task clock now ti p (Raising raw x) = (Inl x, Raising raw x)) \<and>
    ((p = 1 \<or> p = 2 \<or> p = 3) \<longrightarrow>
       get_tasks_by_priority clock p (Raising raw x) = (Inl x, Raising raw x))"
    using ld load_error_propagates [OF ld, of ti now p] by blast
  have p4: "load clock (Wellformed (JObj [])) = Inr []" by simp
  have p5: "load clock (Wellformed (JStr [])) = Inr []" by simp
  have p6: "list_all (\<lambda>kvs. record_ok (JObj kvs)) kvss \<longrightarrow>
      load clock (Wellformed (JArr (map JObj kvss))) =
        Inr (map (\<lambda>(i, kvs). with_defaults (clock i) kvs) (enumerate 0 kvss))"
    by (simp add: load_items_with_defaults)
  show ?thesis
    by (rule conjI [OF p1 conjI [OF p2 conjI [OF p3 conjI [OF p4 conjI [OF p5 p6]]]]])
qed

theorem bad_data_propagates_witness:
  "bad_data (JArr [JObj [(''title'', JStr ''x''), (''priority'', JInt 5)]]) \<and>
   load demo_clock bad_priority_store = Inl (ValueError ''Priority must be 1, 2, or 3'') \<and>
   get_task demo_clock ''Walk dog'' bad_priority_store =
     (Inl (ValueError ''Priority must be 1, 2, or 3''), bad_priority_store) \<and>
   complete_task demo_clock ''2026-01-05T10:00:00'' ''Walk dog'' bad_priority_store =
     (Inl (ValueError ''Priority must be 1, 2, or 3''), bad_priority_store) \<and>
   delete_task demo_clock ''Walk dog'' bad_priority_store =
     (Inl (ValueError ''Priority must be 1, 2, or 3''), bad_priority_store) \<and>
   add_task demo_clock ''2026-01-05T10:00:00'' ''Walk dog'' 2 bad_priority_store =
     (Inl (ValueError ''Priority must be 1, 2, or 3''), bad_priority_store) \<and>
   get_tasks_by_priority demo_clock 2 bad_priority_store =
     (Inl (ValueError ''Priority must be 1, 2, or 3''), bad_priority_store) \<and>
   add_task demo_clock ''2026-01-05T10:00:00'' ''Walk dog'' 2 deep_store =
     (Inl RecursionError, deep_store) \<and>
   get_tasks_by_priority demo_clock 2 deep_store = (Inl RecursionError, deep_store) \<and>
   list_all (\<lambda>kvs. record_ok (JObj kvs)) [[(''title'', JStr ''x'')]] \<and>
   load demo_clock title_only_store =
     Inr [\<lparr>title = JStr ''x'', done = JBool False, priority = JInt 1,
           created_at = JStr ''2026-01-05T09:00:00'', completed_at = JNull\<rparr>]"
proof -
  have t: "''Walk dog'' \<noteq> [] \<and> \<not> list_all py_isspace ''Walk dog'' \<and> length ''Walk dog'' \<le> 200"
    by (simp add: py_isspace_def)
  have p: "(2::int) = 1 \<or> (2::int) = 2 \<or> (2::int) = 3" by simp
  note inst = bad_data_propagates [where clock = demo_clock
      and v = "JArr [JObj [(''title'', JStr ''x''), (''priority'', JInt 5)]]"
      and ti = "''Walk dog''" and now = "''2026-01-05T10:00:00''" and p = 2
      and raw = "replicate 2000 CHR ''[''" and x = RecursionError
      and kvss = "[[(''title'', JStr ''x'')]]"]
  from inst bad_priority_is_bad
  obtain e where
    "load demo_clock bad_priority_store = Inl e" and
    "get_task demo_clock ''Walk dog'' bad_priority_store = (Inl e, bad_priority_store)" and
    "complete_task demo_clock ''2026-01-05T10:00:00'' ''Walk dog'' bad_priority_store =
       (Inl e, bad_priority_store)" and
    "delete_task demo_clock ''Walk dog'' bad_priority_store = (Inl e, bad_priority_store)" and
    "add_task demo_clock ''2026-01-05T10:00:00'' ''Walk dog'' 2 bad_priority_store =
       (Inl e, bad_priority_store)" and
    "get_tasks_by_priority demo_clock 2 bad_priority_store = (Inl e, bad_priority_store)"
    unfolding bad_priority_store_def using t p by blast
  moreover from this(1) have "e = ValueError ''Priority must be 1, 2, or 3''"
    by (simp add: bad_priority_load)
  ultimately have a: "load demo_clock bad_priority_store =
       Inl (ValueError ''Priority must be 1, 2, or 3'') \<and>
     get_task demo_clock ''Walk dog'' bad_priority_store =
       (Inl (ValueError ''Priority must be 1, 2, or 3''), bad_priority_store) \<and>
     complete_task demo_clock ''2026-01-05T10:00:00'' ''Walk dog'' bad_priority_store =
       (Inl (ValueError ''Priority must be 1, 2, or 3''), bad_priority_store) \<and>
     delete_task demo_clock ''Walk dog'' bad_priority_store =
       (Inl (ValueError ''Priority must be 1, 2, or 3''), bad_priority_store) \<and>
     add_task demo_clock ''2026-01-05T10:00:00'' ''Walk dog'' 2 bad_priority_store =
       (Inl (ValueError ''Priority must be 1, 2, or 3''), bad_priority_store) \<and>
     get_tasks_by_priority demo_clock 2 bad_priority_store =
       (Inl (ValueError ''Priority must be 1, 2, or 3''), bad_priority_store)"
    by simp
  from inst t p have b: "add_task demo_clock ''2026-01-05T10:00:00'' ''Walk dog'' 2 deep_store =
       (Inl RecursionError, deep_store) \<and>
     get_tasks_by_priority demo_clock 2 deep_store = (Inl RecursionError, deep_store)"
    unfolding deep_store_def by blast
  from inst title_only_is_ok have "load demo_clock title_only_store =
      Inr (map (\<lambda>(i, kvs). with_defaults (demo_clock i) kvs)
             (enumerate 0 [[(''title'', JStr ''x'')]]))"
    unfolding title_only_store_def by simp
  then have c: "load demo_clock title_only_store =
     Inr [\<lparr>title = JStr ''x'', done = JBool False, priority = JInt 1,
           created_at = JStr ''2026-01-05T09:00:00'', completed_at = JNull\<rparr>]"
    by (simp add: with_defaults_def field_or_def demo_clock_def)
  from a b c bad_priority_is_bad title_only_is_ok show ?thesis by simp
qed

text \<open>
  The claim as stated fails: an empty JSON object and an empty JSON string are
  well-formed, are no list of tasks, and load silently as the empty list; and an entry
  with missing keys other than \<^verbatim>\<open>title\<close> loads with the defaults of the dataclass.
\<close>

theorem bad_data_propagates_counterexample:
  "load demo_clock (Wellformed (JObj [])) = Inr [] \<and>
   get_all_tasks demo_clock (Wellformed (JObj [])) = (Inr [], Wellformed (JObj [])) \<and>
   load demo_clock (Wellformed (JStr [])) = Inr [] \<and>
   get_all_tasks demo_clock title_only_store =
     (Inr [\<lparr>title = JStr ''x'', done = JBool False, priority = JInt 1,
            created_at = JStr ''2026-01-05T09:00:00'', completed_at = JNull\<rparr>],
      title_only_store)"
  by (simp add: get_all_tasks_def title_only_store_def mk_task_def task_fields_def field_or_def
      post_init_def demo_clock_def)

end
